theory Spec2Isabelle
  imports Main "HOL-Library.Word" "HOL-Library.Signed_Division" "HOL-Library.Sublist"
begin

unbundle bit_operations_syntax

section \<open>Object ids and area ids (osmium/osm/area.hpp)\<close>

text \<open>
  \<open>osmium::object_id_type\<close> is \<open>int64_t\<close> and \<open>unsigned_object_id_type\<close> is
  \<open>uint64_t\<close>. Both are 64-bit words here; \<open>sint\<close> reads the signed value, and the
  arithmetic wraps around where the C++ would overflow.
\<close>

type_synonym object_id_type = "64 word"
type_synonym unsigned_object_id_type = "64 word"

text \<open>
  The enumerators of \<open>osmium::item_type\<close>, as the switch in \<open>Area::num_rings\<close>
  lists them.
\<close>

datatype item_type =
    item_type_undefined
  | item_type_node
  | item_type_way
  | item_type_relation
  | item_type_area
  | item_type_changeset
  | item_type_tag_list
  | item_type_way_node_list
  | item_type_relation_member_list
  | item_type_relation_member_list_with_full_members
  | item_type_outer_ring
  | item_type_inner_ring
  | item_type_changeset_discussion

text \<open>\<open>std::abs\<close> on \<open>int64_t\<close>: the negation wraps at the minimum value.\<close>

definition std_abs :: "object_id_type \<Rightarrow> object_id_type" where
  "std_abs x = (if x <s 0 then - x else x)"

text \<open>C++ integer division on \<open>int64_t\<close>: the quotient is truncated towards zero.\<close>

definition int64_div :: "object_id_type \<Rightarrow> object_id_type \<Rightarrow> object_id_type" where
  "int64_div a b = word_of_int (sint a sdiv sint b)"

definition object_id_to_area_id :: "object_id_type \<Rightarrow> item_type \<Rightarrow> object_id_type" where
  "object_id_to_area_id ident type =
     (let area_id = std_abs ident * 2;
          area_id = (if type = item_type_relation then area_id + 1 else area_id)
      in if ident <s 0 then - area_id else area_id)"

definition area_id_to_object_id :: "object_id_type \<Rightarrow> object_id_type" where
  "area_id_to_object_id ident = int64_div ident 2"

text \<open>
  Modelled from the spec: \<open>OSMObject::positive_id\<close> is declared in
  osmium/osm/object.hpp, which is not among the sources. The spec calls it the
  absolute area id (\<open>from_way = (|area_id| & 1) == 0\<close>); the result is unsigned.
\<close>

definition positive_id :: "object_id_type \<Rightarrow> unsigned_object_id_type" where
  "positive_id ident = std_abs ident"

text \<open>\<open>Area::from_way\<close>, on the id of the area.\<close>

definition from_way :: "object_id_type \<Rightarrow> bool" where
  "from_way ident \<longleftrightarrow> (positive_id ident AND 1) = 0"

text \<open>
  The ids for which neither \<open>|id| * 2\<close> nor \<open>|id| * 2 + 1\<close> leaves the range of
  \<open>int64_t\<close>.
\<close>

definition id_in_range :: "object_id_type \<Rightarrow> bool" where
  "id_in_range ident \<longleftrightarrow> - (2 ^ 62) < sint ident \<and> sint ident < 2 ^ 62"

section \<open>Tags and tag matchers (osmium/tags/matcher.hpp)\<close>

text \<open>
  A tag is a pair of C strings, key and value; a tag list is their sequence in the
  order of the object.
\<close>

type_synonym Tag = "string \<times> string"
type_synonym TagList = "Tag list"

definition tag_key :: "Tag \<Rightarrow> string" where
  "tag_key tag = fst tag"

definition tag_value :: "Tag \<Rightarrow> string" where
  "tag_value tag = snd tag"

text \<open>
  Modelled from the spec: \<open>osmium::StringMatcher\<close> is declared in
  osmium/util/string_matcher.hpp, which is not among the sources. The spec calls it a
  predicate over strings with the base matchers \<open>always_true\<close> and
  \<open>always_false\<close>.
\<close>

type_synonym StringMatcher = "string \<Rightarrow> bool"

definition always_false :: StringMatcher where
  "always_false s = False"

definition always_true :: StringMatcher where
  "always_true s = True"

record TagMatcher =
  m_key_matcher :: StringMatcher
  m_value_matcher :: StringMatcher
  m_result :: bool

text \<open>The three constructors of \<open>TagMatcher\<close>; \<open>m_result\<close> defaults to true.\<close>

definition TagMatcher_default :: TagMatcher where
  "TagMatcher_default =
     \<lparr>m_key_matcher = always_false, m_value_matcher = always_false, m_result = True\<rparr>"

definition TagMatcher_key :: "StringMatcher \<Rightarrow> TagMatcher" where
  "TagMatcher_key key_matcher =
     \<lparr>m_key_matcher = key_matcher, m_value_matcher = always_true, m_result = True\<rparr>"

definition TagMatcher_key_value :: "StringMatcher \<Rightarrow> StringMatcher \<Rightarrow> bool \<Rightarrow> TagMatcher" where
  "TagMatcher_key_value key_matcher value_matcher invert =
     \<lparr>m_key_matcher = key_matcher, m_value_matcher = value_matcher, m_result = (\<not> invert)\<rparr>"

text \<open>\<open>operator()(const char* key, const char* value)\<close>\<close>

definition match_key_value :: "TagMatcher \<Rightarrow> string \<Rightarrow> string \<Rightarrow> bool" where
  "match_key_value m k v \<longleftrightarrow> m_key_matcher m k \<and> (m_value_matcher m v = m_result m)"

text \<open>\<open>operator()(const osmium::Tag&)\<close>\<close>

definition match_tag :: "TagMatcher \<Rightarrow> Tag \<Rightarrow> bool" where
  "match_tag m tag = match_key_value m (tag_key tag) (tag_value tag)"

text \<open>
  \<open>operator()(const osmium::TagList&)\<close>: the loop returns at the first tag that
  matches.
\<close>

fun match_tags :: "TagMatcher \<Rightarrow> TagList \<Rightarrow> bool" where
  "match_tags m [] = False"
| "match_tags m (tag # rest) = (if match_tag m tag then True else match_tags m rest)"

section \<open>OSM objects\<close>

text \<open>
  Modelled from the spec: \<open>TagList::get_value_by_key\<close> and \<open>TagList::has_tag\<close>
  are declared in osmium/osm/tag.hpp, which is not among the sources. The tag set is an
  ordered sequence of key/value pairs whose keys need not be unique: the lookup takes the
  first tag with the key (\<open>None\<close> is the null pointer), and \<open>has_tag\<close> compares
  the value found there.
\<close>

fun get_value_by_key :: "TagList \<Rightarrow> string \<Rightarrow> string option" where
  "get_value_by_key [] k = None"
| "get_value_by_key (tag # rest) k =
     (if tag_key tag = k then Some (tag_value tag) else get_value_by_key rest k)"

definition has_tag :: "TagList \<Rightarrow> string \<Rightarrow> string \<Rightarrow> bool" where
  "has_tag tag_list k v \<longleftrightarrow> get_value_by_key tag_list k = Some v"

text \<open>
  Modelled from the spec: \<open>osmium::TagsFilter\<close>, \<open>osmium::tags::match_any_of\<close>
  and \<open>osmium::tags::match_none_of\<close> are declared in osmium/tags/tags_filter.hpp
  and osmium/tags/taglist.hpp, which are not among the sources. The filter is the
  user-supplied predicate over a tag; a tag list matches if any tag matches.
\<close>

type_synonym TagsFilter = "Tag \<Rightarrow> bool"

definition match_any_of :: "TagList \<Rightarrow> TagsFilter \<Rightarrow> bool" where
  "match_any_of tag_list filter_fn = list_ex filter_fn tag_list"

definition match_none_of :: "TagList \<Rightarrow> TagsFilter \<Rightarrow> bool" where
  "match_none_of tag_list filter_fn = (\<not> list_ex filter_fn tag_list)"

text \<open>
  Modelled from the spec: \<open>osmium::Location\<close>, \<open>osmium::NodeRef\<close>,
  \<open>osmium::Way\<close>, \<open>osmium::Relation\<close> and \<open>osmium::RelationMember\<close> are
  declared in headers that are not among the sources. A node ref is a pair of a node id
  and an optional location with integer coordinates; a way is a sequence of node refs; a
  relation is a sequence of members (type, id, role); every object has an id and tags.
\<close>

record Location =
  m_x :: "32 word"
  m_y :: "32 word"

record NodeRef =
  node_ref :: object_id_type
  location :: "Location option"

record RelationMember =
  ref :: object_id_type
  member_type :: item_type
  role :: string

record OSMObject =
  m_id :: object_id_type
  tags :: TagList

record Way = OSMObject +
  nodes :: "NodeRef list"

record Relation = OSMObject +
  members :: "RelationMember list"

text \<open>An area carries its rings, each tagged outer or inner, after the id and tags.\<close>

record Area = OSMObject +
  rings :: "(item_type \<times> NodeRef list) list"

text \<open>
  \<open>Way::ends_have_same_location\<close> compares the locations of the first and the last
  node ref; it is called on ways with more than three node refs only.
\<close>

definition ends_have_same_location :: "Way \<Rightarrow> bool" where
  "ends_have_same_location way \<longleftrightarrow> location (hd (nodes way)) = location (last (nodes way))"

section \<open>Exceptions and the assembler\<close>

text \<open>
  \<open>osmium::invalid_location\<close> is the one exception the manager catches. Every other
  exception is \<open>other_exception\<close> with its message. \<open>contract_violation\<close> stands
  for a failed assertion or a use of a database outside its contract.
\<close>

datatype exception = invalid_location | other_exception string | contract_violation

text \<open>
  Modelled from the spec: the assembler is the template argument \<open>TAssembler\<close>, an
  external collaborator with two call shapes. A call either throws or returns the areas
  it wrote into the output buffer together with its statistics (\<open>assembler.stats()\<close>);
  a call that throws has emitted nothing.
\<close>

record 's TAssembler =
  assemble_closed_way :: "Way \<Rightarrow> exception + (Area list \<times> 's)"
  assemble_relation :: "Relation \<Rightarrow> Way list \<Rightarrow> exception + (Area list \<times> 's)"

text \<open>The invocations of the assembler, as an observer of the manager sees them.\<close>

datatype assembler_call =
    is_way_call: way_call Way
  | is_relation_call: relation_call Relation "Way list"

section \<open>The relations database and the members database\<close>

text \<open>
  Modelled from the spec: \<open>relations::RelationsDatabase\<close> is declared in
  osmium/relations/relations_database.hpp, which is not among the sources. It holds the
  kept relations, each with the count of its outstanding members. A handle is the
  position of the entry; a released entry is \<open>None\<close>. \<open>add\<close> installs a count of 0
  and returns the handle.
\<close>

record relation_entry =
  stored_relation :: Relation
  outstanding :: nat

type_synonym RelationHandle = nat
type_synonym RelationsDatabase = "relation_entry option list"

definition rdb_get :: "RelationsDatabase \<Rightarrow> RelationHandle \<Rightarrow> relation_entry option" where
  "rdb_get db h = (if h < length db then db ! h else None)"

definition rdb_add :: "RelationsDatabase \<Rightarrow> Relation \<Rightarrow> RelationsDatabase \<times> RelationHandle" where
  "rdb_add db relation = (db @ [Some \<lparr>stored_relation = relation, outstanding = 0\<rparr>], length db)"

definition rdb_remove :: "RelationsDatabase \<Rightarrow> RelationHandle \<Rightarrow> RelationsDatabase" where
  "rdb_remove db h = (if h < length db then db[h := None] else db)"

definition rdb_update :: "RelationsDatabase \<Rightarrow> RelationHandle \<Rightarrow> relation_entry \<Rightarrow> RelationsDatabase" where
  "rdb_update db h e = (if h < length db then db[h := Some e] else db)"

text \<open>
  Modelled from the spec: \<open>relations::MembersDatabase\<close> is declared in
  osmium/relations/members_database.hpp, which is not among the sources. It keeps the
  interests (way id, relation handle, slot index) and the payload of every way it has
  stored, and goes through the phases collecting, prepared and draining.
\<close>

record MemberInterest =
  way_id :: object_id_type
  relation_handle :: RelationHandle
  slot_index :: nat

datatype db_phase = collecting | prepared | draining

record MembersDatabase =
  interests :: "MemberInterest list"
  stored_ways :: "(object_id_type \<times> Way) list"
  phase :: db_phase

text \<open>\<open>get(way_id)\<close>: the stored payload; \<open>None\<close> when no way of that id is stored.\<close>

definition mdb_get :: "MembersDatabase \<Rightarrow> object_id_type \<Rightarrow> Way option" where
  "mdb_get db wid = map_of (stored_ways db) wid"

text \<open>\<open>prepare()\<close>: a stable sort ascending by way id, read as a signed number.\<close>

definition mdb_prepare :: "MembersDatabase \<Rightarrow> MembersDatabase" where
  "mdb_prepare db =
     db\<lparr>interests := sort_key (\<lambda>i. sint (way_id i)) (interests db), phase := prepared\<rparr>"

text \<open>
  \<open>remove(way_id, relation_id)\<close> removes all interests matching both ids. An interest
  names its relation by handle, so the relation id is read in the relations database.
\<close>

definition interest_matches ::
  "RelationsDatabase \<Rightarrow> object_id_type \<Rightarrow> object_id_type \<Rightarrow> MemberInterest \<Rightarrow> bool" where
  "interest_matches rdb wid rid i \<longleftrightarrow>
     way_id i = wid \<and>
     (case rdb_get rdb (relation_handle i) of
        None \<Rightarrow> False
      | Some e \<Rightarrow> m_id (stored_relation e) = rid)"

definition mdb_remove ::
  "MembersDatabase \<Rightarrow> RelationsDatabase \<Rightarrow> object_id_type \<Rightarrow> object_id_type \<Rightarrow> MembersDatabase" where
  "mdb_remove db rdb wid rid =
     db\<lparr>interests := filter (\<lambda>i. \<not> interest_matches rdb wid rid i) (interests db)\<rparr>"

section \<open>The multipolygon manager (osmium/area/multipolygon_manager.hpp)\<close>

text \<open>
  The members of the class. \<open>m_output\<close> is the stream of the areas written so far, in
  the order they were written: flushing the callback buffer cuts this stream into buffers
  and does not reorder it. \<open>m_calls\<close> is not a member of the class: it records every
  invocation of the assembler, in order, so that a statement can say whether the
  assembler was invoked. The item stash is part of the two databases here.
\<close>

record 's MultipolygonManager =
  m_relations_db :: RelationsDatabase
  m_members_db :: MembersDatabase
  m_output :: "Area list"
  m_stats :: 's
  m_filter :: TagsFilter
  m_calls :: "assembler_call list"

text \<open>
  A member function returns the manager as it has left it, and the exception that
  propagates out of it, if any.
\<close>

type_synonym 's outcome = "'s MultipolygonManager \<times> exception option"

definition and_then :: "'s outcome \<Rightarrow> ('s MultipolygonManager \<Rightarrow> 's outcome) \<Rightarrow> 's outcome" where
  "and_then r f = (case r of (st, None) \<Rightarrow> f st | (st, Some x) \<Rightarrow> (st, Some x))"

text \<open>The constructor: empty databases, no output, default statistics.\<close>

definition MultipolygonManager_init :: "TagsFilter \<Rightarrow> ('s::zero) MultipolygonManager" where
  "MultipolygonManager_init filter_fn =
     \<lparr>m_relations_db = [],
      m_members_db = \<lparr>interests = [], stored_ways = [], phase = collecting\<rparr>,
      m_output = [], m_stats = 0, m_filter = filter_fn, m_calls = []\<rparr>"

text \<open>
  Modelled from the spec: \<open>MembersDatabase::track\<close> appends an interest and increments
  the outstanding count of the relation; it requires the collecting phase.
\<close>

definition mdb_track ::
  "'s MultipolygonManager \<Rightarrow> RelationHandle \<Rightarrow> object_id_type \<Rightarrow> nat \<Rightarrow> 's outcome" where
  "mdb_track st h wid n =
     (if phase (m_members_db st) \<noteq> collecting then (st, Some contract_violation)
      else case rdb_get (m_relations_db st) h of
        None \<Rightarrow> (st, Some contract_violation)
      | Some e \<Rightarrow>
          (st\<lparr>m_members_db := (m_members_db st)\<lparr>interests := interests (m_members_db st) @
                  [\<lparr>way_id = wid, relation_handle = h, slot_index = n\<rparr>]\<rparr>,
              m_relations_db := rdb_update (m_relations_db st) h
                  (e\<lparr>outstanding := Suc (outstanding e)\<rparr>)\<rparr>, None))"

text \<open>\<open>member.set_ref(v)\<close> on the member in slot \<open>n\<close> of the stored relation.\<close>

definition set_member_ref ::
  "'s MultipolygonManager \<Rightarrow> RelationHandle \<Rightarrow> nat \<Rightarrow> object_id_type \<Rightarrow> 's MultipolygonManager" where
  "set_member_ref st h n v =
     (case rdb_get (m_relations_db st) h of
        None \<Rightarrow> st
      | Some e \<Rightarrow>
          let ms = members (stored_relation e)
          in st\<lparr>m_relations_db := rdb_update (m_relations_db st) h
                 (e\<lparr>stored_relation := (stored_relation e)\<lparr>members := ms[n := (ms ! n)\<lparr>ref := v\<rparr>]\<rparr>\<rparr>)\<rparr>)"

text \<open>\<open>keep_relation\<close>; \<open>strcmp\<close> returning 0 is equality of the strings.\<close>

definition keep_relation :: "TagsFilter \<Rightarrow> Relation \<Rightarrow> bool" where
  "keep_relation filter_fn relation =
     (case get_value_by_key (tags relation) ''type'' of
        None \<Rightarrow> False
      | Some type \<Rightarrow>
          if (type = ''multipolygon'' \<or> type = ''boundary'') \<and> match_any_of (tags relation) filter_fn
          then list_ex (\<lambda>member. member_type member = item_type_way) (members relation)
          else False)"

text \<open>
  The loop of \<open>relation()\<close> over the members of the stored relation, \<open>n\<close> counting
  the slots. The loop changes no member but the one it is at, so the members it reads are
  those of the relation as it was stored.
\<close>

fun walk_members ::
  "RelationHandle \<Rightarrow> RelationMember list \<Rightarrow> nat \<Rightarrow> 's MultipolygonManager \<Rightarrow> 's outcome" where
  "walk_members rel_handle [] n st = (st, None)"
| "walk_members rel_handle (member # rest) n st =
     (if member_type member = item_type_way
      then and_then (mdb_track st rel_handle (ref member) n) (walk_members rel_handle rest (n + 1))
      else walk_members rel_handle rest (n + 1) (set_member_ref st rel_handle n 0))"

definition relation :: "'s MultipolygonManager \<Rightarrow> Relation \<Rightarrow> 's outcome" where
  "relation st r =
     (if keep_relation (m_filter st) r
      then let (db, rel_handle) = rdb_add (m_relations_db st) r
           in walk_members rel_handle (members r) 0 (st\<lparr>m_relations_db := db\<rparr>)
      else (st, None))"

definition prepare :: "'s MultipolygonManager \<Rightarrow> 's MultipolygonManager" where
  "prepare st = st\<lparr>m_members_db := mdb_prepare (m_members_db st)\<rparr>"

text \<open>
  A call of the assembler followed by \<open>m_stats += assembler.stats()\<close>. The two
  statements are in the try block in this order, so an assembler that throws leaves the
  statistics as they were.
\<close>

definition run_assembler ::
  "('s::plus) MultipolygonManager \<Rightarrow> assembler_call \<Rightarrow> exception + (Area list \<times> 's) \<Rightarrow> 's outcome" where
  "run_assembler st call result =
     (let st1 = st\<lparr>m_calls := m_calls st @ [call]\<rparr>
      in case result of
           Inl x \<Rightarrow> (st1, Some x)
         | Inr (areas, stats) \<Rightarrow>
             (st1\<lparr>m_output := m_output st1 @ areas, m_stats := m_stats st1 + stats\<rparr>, None))"

text \<open>\<open>catch (const osmium::invalid_location&)\<close> with an empty handler.\<close>

definition catch_invalid_location :: "'s outcome \<Rightarrow> 's outcome" where
  "catch_invalid_location r =
     (case r of (st, x) \<Rightarrow> (st, if x = Some invalid_location then None else x))"

definition assemble_way :: "('s::plus) TAssembler \<Rightarrow> 's MultipolygonManager \<Rightarrow> Way \<Rightarrow> 's outcome" where
  "assemble_way assembler st way =
     (if length (nodes way) \<le> 3 then (st, None)
      else catch_invalid_location
        (if location (hd (nodes way)) = None \<or> location (last (nodes way)) = None
         then (st, Some invalid_location)
         else if ends_have_same_location way
         then (if has_tag (tags way) ''area'' ''no'' then (st, None)
               else if match_none_of (tags way) (m_filter st) then (st, None)
               else run_assembler st (way_call way) (assemble_closed_way assembler way))
         else (st, None)))"

text \<open>
  The first loop of \<open>complete_relation\<close>: the payloads of the members with a non-zero
  ref, in slot order. \<open>None\<close> when the members database has no payload for one of
  them, where the C++ would take the address of nothing.
\<close>

fun gather_ways :: "MembersDatabase \<Rightarrow> RelationMember list \<Rightarrow> Way list option" where
  "gather_ways db [] = Some []"
| "gather_ways db (member # rest) =
     (if ref member \<noteq> 0
      then (case mdb_get db (ref member) of
              None \<Rightarrow> None
            | Some way \<Rightarrow> map_option ((#) way) (gather_ways db rest))
      else gather_ways db rest)"

definition complete_relation ::
  "('s::plus) TAssembler \<Rightarrow> 's MultipolygonManager \<Rightarrow> Relation \<Rightarrow> 's outcome" where
  "complete_relation assembler st r =
     (case gather_ways (m_members_db st) (members r) of
        None \<Rightarrow> (st, Some contract_violation)
      | Some ways \<Rightarrow>
          catch_invalid_location
            (run_assembler st (relation_call r ways) (assemble_relation assembler r ways)))"

text \<open>
  \<open>remove_members\<close>, as a loop over the members of the relation with id \<open>rid\<close>. The
  assertion is a branch of its own.
\<close>

fun remove_members_loop ::
  "'s MultipolygonManager \<Rightarrow> object_id_type \<Rightarrow> RelationMember list \<Rightarrow> 's outcome" where
  "remove_members_loop st rid [] = (st, None)"
| "remove_members_loop st rid (member # rest) =
     (if ref member \<noteq> 0
      then (if member_type member \<noteq> item_type_way then (st, Some contract_violation)
            else remove_members_loop
                   (st\<lparr>m_members_db := mdb_remove (m_members_db st) (m_relations_db st) (ref member) rid\<rparr>)
                   rid rest)
      else remove_members_loop st rid rest)"

definition remove_members :: "'s MultipolygonManager \<Rightarrow> Relation \<Rightarrow> 's outcome" where
  "remove_members st r = remove_members_loop st (m_id r) (members r)"

text \<open>
  The closure that \<open>member_way\<close> passes to the members database. The handle is
  dereferenced first; a handle that is not live is outside the contract.
\<close>

definition on_complete ::
  "('s::plus) TAssembler \<Rightarrow> 's MultipolygonManager \<Rightarrow> RelationHandle \<Rightarrow> 's outcome" where
  "on_complete assembler st rel_handle =
     (case rdb_get (m_relations_db st) rel_handle of
        None \<Rightarrow> (st, Some contract_violation)
      | Some e \<Rightarrow>
          and_then (complete_relation assembler st (stored_relation e)) (\<lambda>st1.
          and_then (remove_members st1 (stored_relation e)) (\<lambda>st2.
          (st2\<lparr>m_relations_db := rdb_remove (m_relations_db st2) rel_handle\<rparr>, None))))"

text \<open>
  Modelled from the spec: \<open>MembersDatabase::add(way, on_complete)\<close>. It requires a
  prepared database. With no interest in the way it is discarded. Otherwise the way is
  stored once and, for each interest with its id, in the order of the interests, the
  outstanding count of the relation is decremented and, when it reaches zero, the
  callback runs synchronously; then the interests with that id are erased. The payload is
  found again by the way id (\<open>mdb_get\<close>), which stands for the handle attached to the
  member slot.
\<close>

fun notify ::
  "('s MultipolygonManager \<Rightarrow> RelationHandle \<Rightarrow> 's outcome) \<Rightarrow> MemberInterest list \<Rightarrow>
   's MultipolygonManager \<Rightarrow> 's outcome" where
  "notify func [] st = (st, None)"
| "notify func (elem # rest) st =
     (case rdb_get (m_relations_db st) (relation_handle elem) of
        None \<Rightarrow> (st, Some contract_violation)
      | Some e \<Rightarrow>
          if outstanding e = 0 then (st, Some contract_violation)
          else let st1 = st\<lparr>m_relations_db := rdb_update (m_relations_db st) (relation_handle elem)
                              (e\<lparr>outstanding := outstanding e - 1\<rparr>)\<rparr>
               in if outstanding e - 1 = 0
                  then and_then (func st1 (relation_handle elem)) (notify func rest)
                  else notify func rest st1)"

definition mdb_add ::
  "('s MultipolygonManager \<Rightarrow> RelationHandle \<Rightarrow> 's outcome) \<Rightarrow> 's MultipolygonManager \<Rightarrow> Way \<Rightarrow>
   's outcome" where
  "mdb_add func st way =
     (let db = m_members_db st;
          matching = filter (\<lambda>i. way_id i = m_id way) (interests db)
      in if phase db = collecting then (st, Some contract_violation)
         else if matching = [] then (st, None)
         else and_then
                (notify func matching
                   (st\<lparr>m_members_db := db\<lparr>stored_ways := stored_ways db @ [(m_id way, way)],
                                            phase := draining\<rparr>\<rparr>))
                (\<lambda>st1. (st1\<lparr>m_members_db := (m_members_db st1)\<lparr>interests :=
                            filter (\<lambda>i. way_id i \<noteq> m_id way) (interests (m_members_db st1))\<rparr>\<rparr>, None)))"

definition member_way :: "('s::plus) TAssembler \<Rightarrow> 's MultipolygonManager \<Rightarrow> Way \<Rightarrow> 's outcome" where
  "member_way assembler st way =
     and_then (mdb_add (on_complete assembler) st way) (\<lambda>st1. assemble_way assembler st1 way)"

section \<open>The words of the specification\<close>

text \<open>
  The default filter of the constructor, \<open>osmium::TagsFilter{true}\<close>, matches every
  tag.
\<close>

definition default_filter :: TagsFilter where
  "default_filter tag = True"

text \<open>The tags of an object minus the tags with key \<open>type\<close>.\<close>

definition tags_without_type :: "TagList \<Rightarrow> TagList" where
  "tags_without_type tag_list = filter (\<lambda>tag. tag_key tag \<noteq> ''type'') tag_list"

text \<open>
  What pass 1 is to leave of a member: a way as it is, every other member with its id set
  to 0 and its other fields kept.
\<close>

definition zero_unless_way :: "RelationMember \<Rightarrow> RelationMember" where
  "zero_unless_way member =
     (if member_type member = item_type_way then member else member\<lparr>ref := 0\<rparr>)"

text \<open>
  The interests pass 1 is to register for the members \<open>ms\<close> in the slots \<open>n\<close>,
  \<open>n + 1\<close>, ...: one (way id, handle, slot) for each member of type way, in slot
  order.
\<close>

definition way_interests :: "RelationHandle \<Rightarrow> nat \<Rightarrow> RelationMember list \<Rightarrow> MemberInterest list" where
  "way_interests h n ms =
     map (\<lambda>(k, member). \<lparr>way_id = ref member, relation_handle = h, slot_index = k\<rparr>)
       (filter (\<lambda>(k, member). member_type member = item_type_way) (List.enumerate n ms))"

text \<open>
  Between the managers \<open>st\<close> and \<open>st'\<close> the output and the assembler calls have
  only grown, and every call made in between is a call of the relation assembler.
\<close>

definition only_relation_calls_since :: "'s MultipolygonManager \<Rightarrow> 's MultipolygonManager \<Rightarrow> bool" where
  "only_relation_calls_since st st' \<longleftrightarrow>
     prefix (m_output st) (m_output st') \<and> prefix (m_calls st) (m_calls st') \<and>
     list_all is_relation_call (drop (length (m_calls st)) (m_calls st'))"

text \<open>
  The way payloads the closure is to gather for a relation: those of the members with a
  non-zero id, in slot order, fetched from the members database.
\<close>

definition resolved_ways :: "MembersDatabase \<Rightarrow> Relation \<Rightarrow> Way list" where
  "resolved_ways db r =
     map (\<lambda>member. the (mdb_get db (ref member))) (filter (\<lambda>member. ref member \<noteq> 0) (members r))"

text \<open>
  The members database holds a payload for every member with a non-zero id, so that
  every \<open>get\<close> of the closure is within its contract.
\<close>

definition payloads_stored :: "MembersDatabase \<Rightarrow> Relation \<Rightarrow> bool" where
  "payloads_stored db r =
     list_all (\<lambda>member. ref member = 0 \<or> mdb_get db (ref member) \<noteq> None) (members r)"

text \<open>The assertion of \<open>remove_members\<close> holds on every member.\<close>

definition members_asserted :: "Relation \<Rightarrow> bool" where
  "members_asserted r =
     list_all (\<lambda>member. ref member = 0 \<or> member_type member = item_type_way) (members r)"

text \<open>
  The manager after the closure has done its four steps on the relation \<open>r\<close> under
  the handle \<open>h\<close>: the relation assembler has been called on the gathered ways, the
  output and the statistics are \<open>out\<close> and \<open>stats\<close>, the interests that match a
  non-zero member id and the id of the relation are removed, and the handle is released.
\<close>

definition completed ::
  "'s MultipolygonManager \<Rightarrow> RelationHandle \<Rightarrow> Relation \<Rightarrow> Way list \<Rightarrow> Area list \<Rightarrow> 's \<Rightarrow>
   's MultipolygonManager" where
  "completed st h r ways out stats =
     st\<lparr>m_calls := m_calls st @ [relation_call r ways],
        m_output := out,
        m_stats := stats,
        m_members_db := (m_members_db st)\<lparr>interests :=
          filter (\<lambda>i. \<not> list_ex (\<lambda>member. ref member \<noteq> 0 \<and>
                     interest_matches (m_relations_db st) (ref member) (m_id r) i) (members r))
            (interests (m_members_db st))\<rparr>,
        m_relations_db := rdb_remove (m_relations_db st) h\<rparr>"

text \<open>
  What is left of \<open>member_way\<close> once the closure has returned: the members database
  serves the remaining interests in the way, erases the interests in the way, and the
  closed-way path follows.
\<close>

definition rest_of_member_way ::
  "('s::plus) TAssembler \<Rightarrow> 's MultipolygonManager \<Rightarrow> MemberInterest list \<Rightarrow> Way \<Rightarrow> 's outcome" where
  "rest_of_member_way assembler st rest way =
     and_then
       (and_then (notify (on_complete assembler) rest st)
          (\<lambda>st1. (st1\<lparr>m_members_db := (m_members_db st1)\<lparr>interests :=
                     filter (\<lambda>i. way_id i \<noteq> m_id way) (interests (m_members_db st1))\<rparr>\<rparr>, None)))
       (\<lambda>st1. assemble_way assembler st1 way)"

section \<open>Sample inputs\<close>

text \<open>
  An assembler that always succeeds: it writes one area with the id of the bijection and
  one outer ring per way, and reports a statistics value of 1. And an assembler that
  always throws \<open>invalid_location\<close>.
\<close>

definition sample_assembler :: "nat TAssembler" where
  "sample_assembler =
     \<lparr>assemble_closed_way = (\<lambda>w. Inr ([\<lparr>m_id = object_id_to_area_id (m_id w) item_type_way,
           tags = tags w, rings = [(item_type_outer_ring, nodes w)]\<rparr>], 1)),
      assemble_relation = (\<lambda>r ws. Inr ([\<lparr>m_id = object_id_to_area_id (m_id r) item_type_relation,
           tags = tags r, rings = map (\<lambda>w. (item_type_outer_ring, nodes w)) ws\<rparr>], 1))\<rparr>"

definition throwing_assembler :: "nat TAssembler" where
  "throwing_assembler =
     \<lparr>assemble_closed_way = (\<lambda>w. Inl invalid_location),
      assemble_relation = (\<lambda>r ws. Inl invalid_location)\<rparr>"

text \<open>A closed way of four node refs tagged \<open>building=yes\<close>, with id 10.\<close>

definition sample_way :: Way where
  "sample_way = \<lparr>m_id = 10, tags = [(''building'', ''yes'')],
     nodes = [\<lparr>node_ref = 1, location = Some \<lparr>m_x = 0, m_y = 0\<rparr>\<rparr>,
              \<lparr>node_ref = 2, location = Some \<lparr>m_x = 1, m_y = 0\<rparr>\<rparr>,
              \<lparr>node_ref = 3, location = Some \<lparr>m_x = 1, m_y = 1\<rparr>\<rparr>,
              \<lparr>node_ref = 1, location = Some \<lparr>m_x = 0, m_y = 0\<rparr>\<rparr>]\<rparr>"

text \<open>
  A multipolygon relation with id 7 whose members are a node and the way 10.
\<close>

definition sample_relation :: Relation where
  "sample_relation = \<lparr>m_id = 7, tags = [(''type'', ''multipolygon''), (''landuse'', ''forest'')],
     members = [\<lparr>ref = 3, member_type = item_type_node, role = ''label''\<rparr>,
                \<lparr>ref = 10, member_type = item_type_way, role = ''outer''\<rparr>]\<rparr>"

text \<open>A new manager with the default filter.\<close>

definition new_manager :: "nat MultipolygonManager" where
  "new_manager = MultipolygonManager_init default_filter"

text \<open>The manager after pass 1 over the sample relation and \<open>prepare()\<close>.\<close>

definition sample_manager :: "nat MultipolygonManager" where
  "sample_manager = prepare (fst (relation new_manager sample_relation))"

text \<open>The sample relation as the manager stores it: the ref of the node member is zeroed.\<close>

definition stored_sample_relation :: Relation where
  "stored_sample_relation = sample_relation\<lparr>members :=
      [\<lparr>ref = 0, member_type = item_type_node, role = ''label''\<rparr>,
       \<lparr>ref = 10, member_type = item_type_way, role = ''outer''\<rparr>]\<rparr>"

text \<open>
  The sample manager inside \<open>MembersDatabase::add\<close> for the sample way: the way is
  stored and the interests in it are about to be served.
\<close>

definition completing_manager :: "nat MultipolygonManager" where
  "completing_manager = sample_manager\<lparr>m_members_db := (m_members_db sample_manager)
      \<lparr>stored_ways := stored_ways (m_members_db sample_manager) @ [(m_id sample_way, sample_way)],
       phase := draining\<rparr>\<rparr>"

text \<open>An assembler that always throws an exception other than \<open>invalid_location\<close>.\<close>

definition failing_assembler :: "nat TAssembler" where
  "failing_assembler =
     \<lparr>assemble_closed_way = (\<lambda>w. Inl (other_exception ''assembler'')),
      assemble_relation = (\<lambda>r ws. Inl (other_exception ''assembler''))\<rparr>"

text \<open>
  The sample manager at the moment the closure runs for the sample relation: the
  outstanding count has reached zero.
\<close>

definition closure_entry_manager :: "nat MultipolygonManager" where
  "closure_entry_manager = completing_manager\<lparr>m_relations_db :=
      rdb_update (m_relations_db completing_manager) 0
        \<lparr>stored_relation = stored_sample_relation, outstanding = 0\<rparr>\<rparr>"

text \<open>
  A multipolygon relation whose only member is a way with id 0, a closed way with id 0,
  and the manager after pass 1 over this relation and \<open>prepare()\<close>; then this manager
  inside \<open>MembersDatabase::add\<close> for the way, and at the moment the closure runs.
\<close>

definition zero_relation :: Relation where
  "zero_relation = \<lparr>m_id = 7, tags = [(''type'', ''multipolygon'')],
     members = [\<lparr>ref = 0, member_type = item_type_way, role = ''outer''\<rparr>]\<rparr>"

definition zero_way :: Way where
  "zero_way = sample_way\<lparr>m_id := 0\<rparr>"

definition zero_manager :: "nat MultipolygonManager" where
  "zero_manager = prepare (fst (relation new_manager zero_relation))"

definition zero_completing_manager :: "nat MultipolygonManager" where
  "zero_completing_manager = zero_manager\<lparr>m_members_db := (m_members_db zero_manager)
      \<lparr>stored_ways := stored_ways (m_members_db zero_manager) @ [(m_id zero_way, zero_way)],
       phase := draining\<rparr>\<rparr>"

definition zero_closure_entry_manager :: "nat MultipolygonManager" where
  "zero_closure_entry_manager = zero_completing_manager\<lparr>m_relations_db :=
      rdb_update (m_relations_db zero_completing_manager) 0
        \<lparr>stored_relation = zero_relation, outstanding = 0\<rparr>\<rparr>"

text \<open>A relation like the sample relation without its way member.\<close>

definition sample_relation_without_way :: Relation where
  "sample_relation_without_way = sample_relation\<lparr>members :=
      [\<lparr>ref = 3, member_type = item_type_node, role = ''label''\<rparr>]\<rparr>"

text \<open>A relation like the sample relation whose only tag is the type tag.\<close>

definition sample_relation_type_only :: Relation where
  "sample_relation_type_only = sample_relation\<lparr>tags := [(''type'', ''boundary'')]\<rparr>"

text \<open>A way like the sample way tagged \<open>area=no\<close> as well.\<close>

definition sample_way_area_no :: Way where
  "sample_way_area_no = sample_way\<lparr>tags := [(''building'', ''yes''), (''area'', ''no'')]\<rparr>"

section \<open>The area id bijection\<close>

lemma sint_std_abs: "id_in_range x \<Longrightarrow> sint (std_abs x) = \<bar>sint x\<bar>"
  unfolding std_abs_def id_in_range_def
  by (auto simp: word_sless_alt sint_word_ariths signed_take_bit_int_eq_self)

lemma sint_twice_abs:
  assumes "id_in_range x"
  shows "sint (std_abs x * 2) = \<bar>sint x\<bar> * 2"
proof -
  have "sint (std_abs x * 2) = signed_take_bit 63 (\<bar>sint x\<bar> * 2)"
    using sint_std_abs [OF assms] by (simp add: sint_word_ariths)
  also have "\<dots> = \<bar>sint x\<bar> * 2"
    using assms unfolding id_in_range_def
    by (intro signed_take_bit_int_eq_self) auto
  finally show ?thesis .
qed

lemma sint_twice_abs_plus_one:
  assumes "id_in_range x"
  shows "sint (std_abs x * 2 + 1) = \<bar>sint x\<bar> * 2 + 1"
proof -
  have "sint (std_abs x * 2 + 1) = signed_take_bit 63 (\<bar>sint x\<bar> * 2 + 1)"
    using sint_twice_abs [OF assms] by (simp add: sint_word_ariths)
  also have "\<dots> = \<bar>sint x\<bar> * 2 + 1"
    using assms unfolding id_in_range_def
    by (intro signed_take_bit_int_eq_self) auto
  finally show ?thesis .
qed

lemma sint_neg_small:
  fixes w :: "64 word"
  assumes "- (2 ^ 63) < sint w"
  shows "sint (- w) = - sint w"
proof -
  have "sint w < 2 ^ 63" using sint_lt [of w] by simp
  then have "signed_take_bit 63 (- sint w) = - sint w"
    using assms by (intro signed_take_bit_int_eq_self) auto
  then show ?thesis by (simp add: sint_word_ariths)
qed

lemma sint_object_id_to_area_id:
  assumes "id_in_range x"
  shows "sint (object_id_to_area_id x t) =
     (if sint x < 0 then - (\<bar>sint x\<bar> * 2 + (if t = item_type_relation then 1 else 0))
      else \<bar>sint x\<bar> * 2 + (if t = item_type_relation then 1 else 0))"
proof -
  have r: "- (2 ^ 62) < sint x" "sint x < 2 ^ 62"
    using assms by (simp_all add: id_in_range_def)
  have a: "sint (- (std_abs x * 2)) = - (\<bar>sint x\<bar> * 2)"
    using r sint_twice_abs [OF assms] by (subst sint_neg_small) auto
  have b: "sint (- (std_abs x * 2 + 1)) = - (\<bar>sint x\<bar> * 2 + 1)"
    using r sint_twice_abs_plus_one [OF assms] by (subst sint_neg_small) auto
  show ?thesis
    using a b sint_twice_abs [OF assms] sint_twice_abs_plus_one [OF assms]
    by (simp add: object_id_to_area_id_def Let_def word_sless_alt)
qed

lemma sdiv_two_roundtrip:
  fixes k :: int
  assumes "b = 0 \<or> b = 1"
  shows "(if k < 0 then - (\<bar>k\<bar> * 2 + b) else \<bar>k\<bar> * 2 + b) sdiv 2 = k"
  using assms by (auto simp: signed_divide_int_def sgn_if)

lemma sint_area_id_to_object_id: "sint (area_id_to_object_id a) = sint a sdiv 2"
proof -
  have b: "- (2 ^ 63) \<le> sint a" "sint a < 2 ^ 63"
    using sint_ge [of a] sint_lt [of a] by simp_all
  have "- (2 ^ 63) \<le> sint a sdiv 2 \<and> sint a sdiv 2 < 2 ^ 63"
    using b by (auto simp: signed_divide_int_def sgn_if)
  then have "signed_take_bit 63 (sint a sdiv 2) = sint a sdiv 2"
    by (intro signed_take_bit_int_eq_self) auto
  then show ?thesis
    by (simp add: area_id_to_object_id_def int64_div_def sint_sbintrunc')
qed

text \<open>
  C3: for every object id in the range where the area id does not overflow, and every
  type (way and relation among them), converting the id to an area id and back gives the
  id again. The area id is \<open>|id| * 2\<close>, plus 1 for a relation, with the sign of the id;
  the way back is the division by 2 that truncates towards zero.
\<close>

theorem area_id_roundtrip:
  assumes "id_in_range ident"
  shows "area_id_to_object_id (object_id_to_area_id ident t) = ident
     \<and> sint (object_id_to_area_id ident t) =
         (if sint ident < 0
          then - (\<bar>sint ident\<bar> * 2 + (if t = item_type_relation then 1 else 0))
          else \<bar>sint ident\<bar> * 2 + (if t = item_type_relation then 1 else 0))
     \<and> sint (area_id_to_object_id a) = sint a sdiv 2"
proof -
  have "sint (object_id_to_area_id ident t) sdiv 2 = sint ident"
    unfolding sint_object_id_to_area_id [OF assms]
    by (rule sdiv_two_roundtrip) simp
  then have "area_id_to_object_id (object_id_to_area_id ident t) = ident"
    by (simp add: area_id_to_object_id_def int64_div_def)
  then show ?thesis
    using sint_object_id_to_area_id [OF assms, of t] sint_area_id_to_object_id [of a]
    by blast
qed

theorem area_id_roundtrip_witness:
  "id_in_range (- 7)
   \<and> area_id_to_object_id (object_id_to_area_id (- 7) item_type_relation) = - 7
   \<and> sint (object_id_to_area_id (- 7) item_type_relation) = - 15
   \<and> sint (area_id_to_object_id (- 15)) = - 7"
proof -
  have r: "id_in_range (- 7)"
    by (simp add: id_in_range_def)
  have d: "(- 15 :: int) sdiv 2 = - 7"
    by (simp add: signed_divide_int_def)
  show ?thesis
    using area_id_roundtrip [OF r, of item_type_relation "- 15"] r d by simp
qed

lemma and_one_zero_iff_even: "(w AND 1) = 0 \<longleftrightarrow> even w" for w :: "64 word"
  by (simp add: and_one_eq even_iff_mod_2_eq_zero)

lemma from_way_iff_even: "from_way a \<longleftrightarrow> even a"
  by (simp add: from_way_def positive_id_def std_abs_def and_one_zero_iff_even)

lemma even_area_id_way: "even (object_id_to_area_id ident item_type_way)"
  by (simp add: object_id_to_area_id_def Let_def)

lemma odd_area_id_relation: "odd (object_id_to_area_id ident item_type_relation)"
  by (simp add: object_id_to_area_id_def Let_def)

text \<open>
  C8: the area id of a way has a zero least significant bit in its absolute value, so
  \<open>from_way\<close> is true on it; the area id of a relation has a one there, so
  \<open>from_way\<close> is false on it. This holds for every 64-bit id.
\<close>

theorem from_way_area_id:
  "from_way (object_id_to_area_id ident item_type_way) \<and>
   \<not> from_way (object_id_to_area_id ident item_type_relation)"
  by (simp add: from_way_iff_even even_area_id_way odd_area_id_relation)

section \<open>Tag matchers\<close>

lemma match_tags_iff: "match_tags m tag_list \<longleftrightarrow> list_ex (match_tag m) tag_list"
  by (induction tag_list) simp_all

text \<open>
  C9: a matcher built from a key matcher, a value matcher and the invert flag accepts a
  tag exactly when the key matcher holds on the key and the value matcher's answer on the
  value differs from the invert flag (exclusive or); on a tag list it is true exactly
  when it accepts some tag of the list.
\<close>

theorem keyed_matcher_accepts:
  "(match_key_value (TagMatcher_key_value key_matcher value_matcher invert) k v
      \<longleftrightarrow> key_matcher k \<and> (value_matcher v \<noteq> invert))
   \<and> (match_tag (TagMatcher_key_value key_matcher value_matcher invert) (k, v)
      \<longleftrightarrow> key_matcher k \<and> (value_matcher v \<noteq> invert))
   \<and> (match_tags (TagMatcher_key_value key_matcher value_matcher invert) tag_list
      \<longleftrightarrow> (\<exists>tag \<in> set tag_list.
             match_tag (TagMatcher_key_value key_matcher value_matcher invert) tag))"
  by (auto simp: match_tags_iff list_ex_iff match_tag_def match_key_value_def
      TagMatcher_key_value_def tag_key_def tag_value_def)

text \<open>
  C10: the default-constructed matcher, whose key and value matchers are both
  \<open>always_false\<close>, accepts no key and value, no tag and no tag list.
\<close>

theorem default_matcher_matches_nothing:
  "\<not> match_key_value TagMatcher_default k v \<and> \<not> match_tag TagMatcher_default tag
   \<and> \<not> match_tags TagMatcher_default tag_list"
  by (simp add: match_tags_iff list_ex_iff match_tag_def match_key_value_def
      TagMatcher_default_def always_false_def)

section \<open>Facts about the sample inputs\<close>

lemma sample_manager_eq:
  "sample_manager =
     \<lparr>m_relations_db = [Some \<lparr>stored_relation = stored_sample_relation, outstanding = 1\<rparr>],
      m_members_db = \<lparr>interests = [\<lparr>way_id = 10, relation_handle = 0, slot_index = 1\<rparr>],
                      stored_ways = [], phase = prepared\<rparr>,
      m_output = [], m_stats = 0, m_filter = default_filter, m_calls = []\<rparr>"
  by (simp add: sample_manager_def prepare_def relation_def new_manager_def default_filter_def
      MultipolygonManager_init_def keep_relation_def sample_relation_def match_any_of_def
      tag_key_def tag_value_def rdb_add_def mdb_track_def rdb_get_def rdb_update_def
      set_member_ref_def mdb_prepare_def stored_sample_relation_def and_then_def Let_def)

lemma completing_manager_eq:
  "completing_manager =
     \<lparr>m_relations_db = [Some \<lparr>stored_relation = stored_sample_relation, outstanding = 1\<rparr>],
      m_members_db = \<lparr>interests = [\<lparr>way_id = 10, relation_handle = 0, slot_index = 1\<rparr>],
                      stored_ways = [(10, sample_way)], phase = draining\<rparr>,
      m_output = [], m_stats = 0, m_filter = default_filter, m_calls = []\<rparr>"
  by (simp add: completing_manager_def sample_manager_eq) (simp add: sample_way_def)

lemma sample_way_qualifies:
  "length (nodes sample_way) = 4
   \<and> location (hd (nodes sample_way)) \<noteq> None \<and> location (last (nodes sample_way)) \<noteq> None
   \<and> ends_have_same_location sample_way
   \<and> \<not> has_tag (tags sample_way) ''area'' ''no''
   \<and> \<not> match_none_of (tags sample_way) default_filter"
  by (simp add: sample_way_def has_tag_def tag_key_def ends_have_same_location_def match_none_of_def
      default_filter_def)

lemma assemble_way_sample:
  "m_filter st = default_filter \<Longrightarrow>
   assemble_way assembler st sample_way =
     catch_invalid_location (run_assembler st (way_call sample_way) (assemble_closed_way assembler sample_way))"
  using sample_way_qualifies by (auto simp: assemble_way_def)

lemma gather_sample:
  "gather_ways (m_members_db completing_manager) (members stored_sample_relation) = Some [sample_way]"
  by (simp add: completing_manager_eq stored_sample_relation_def mdb_get_def)

section \<open>Sequencing and propagation of exceptions\<close>

lemma and_then_None [simp]: "and_then (st, None) f = f st"
  by (simp add: and_then_def)

lemma and_then_Some [simp]: "and_then (st, Some x) f = (st, Some x)"
  by (simp add: and_then_def)

lemma and_then_assoc: "and_then (and_then r f) g = and_then r (\<lambda>st. and_then (f st) g)"
  by (cases r) (auto simp: and_then_def split: option.splits)

lemma snd_and_then_Some: "snd r = Some x \<Longrightarrow> and_then r f = r"
  by (cases r) simp

lemma notify_append:
  "notify func (xs @ ys) st = and_then (notify func xs st) (notify func ys)"
proof (induction xs arbitrary: st)
  case Nil
  show ?case by simp
next
  case (Cons elem xs)
  have ih: "notify func (xs @ ys) = (\<lambda>st. and_then (notify func xs st) (notify func ys))"
    by (rule ext) (rule Cons.IH)
  show ?case
    by (simp add: ih and_then_assoc Let_def split: option.splits)
qed

lemma notify_completing:
  assumes "rdb_get (m_relations_db st) (relation_handle elem) = Some e" and "outstanding e = 1"
  shows "notify func (elem # rest) st =
     and_then (func (st\<lparr>m_relations_db := rdb_update (m_relations_db st) (relation_handle elem)
                          (e\<lparr>outstanding := 0\<rparr>)\<rparr>) (relation_handle elem))
              (notify func rest)"
  using assms by (simp add: Let_def)

lemma rdb_get_update_same:
  "rdb_get db h = Some e \<Longrightarrow> rdb_get (rdb_update db h e') h = Some e'"
  by (auto simp: rdb_get_def rdb_update_def split: if_splits)

lemma complete_relation_throw:
  assumes "gather_ways (m_members_db st) (members r) = Some ways"
    and "assemble_relation assembler r ways = Inl x"
  shows "complete_relation assembler st r =
     (st\<lparr>m_calls := m_calls st @ [relation_call r ways]\<rparr>,
      if x = invalid_location then None else Some x)"
  using assms by (simp add: complete_relation_def run_assembler_def catch_invalid_location_def Let_def)

lemma assemble_way_throw:
  assumes "m_calls (fst (assemble_way assembler st way)) = m_calls st @ [way_call way]"
    and "assemble_closed_way assembler way = Inl x"
  shows "assemble_way assembler st way =
     (st\<lparr>m_calls := m_calls st @ [way_call way]\<rparr>,
      if x = invalid_location then None else Some x)"
  using assms
  by (auto simp: assemble_way_def catch_invalid_location_def run_assembler_def Let_def
      split: if_splits)

lemma on_complete_propagates:
  assumes "rdb_get (m_relations_db st) h = Some e"
    and "snd (complete_relation assembler st (stored_relation e)) = Some x"
  shows "on_complete assembler st h = complete_relation assembler st (stored_relation e)"
  using assms by (simp add: on_complete_def snd_and_then_Some)

lemma mdb_add_propagates:
  assumes "phase (m_members_db st) \<noteq> collecting"
    and "filter (\<lambda>i. way_id i = m_id way) (interests (m_members_db st)) = matching"
    and "matching \<noteq> []"
    and "snd (notify func matching (st\<lparr>m_members_db := (m_members_db st)
           \<lparr>stored_ways := stored_ways (m_members_db st) @ [(m_id way, way)], phase := draining\<rparr>\<rparr>)) = Some x"
  shows "snd (mdb_add func st way) = Some x"
  using assms by (simp add: mdb_add_def Let_def snd_and_then_Some)

lemma member_way_propagates_add:
  "snd (mdb_add (on_complete assembler) st way) = Some x \<Longrightarrow> snd (member_way assembler st way) = Some x"
  by (simp add: member_way_def snd_and_then_Some)

lemma member_way_after_add:
  "mdb_add (on_complete assembler) st way = (st1, None) \<Longrightarrow>
   member_way assembler st way = assemble_way assembler st1 way"
  by (simp add: member_way_def)

lemma member_way_relation_throw:
  assumes ph: "phase (m_members_db st) \<noteq> collecting"
    and m: "filter (\<lambda>i. way_id i = m_id way) (interests (m_members_db st)) = pre @ elem # rest"
    and pre: "notify (on_complete assembler) pre
        (st\<lparr>m_members_db := (m_members_db st)
           \<lparr>stored_ways := stored_ways (m_members_db st) @ [(m_id way, way)], phase := draining\<rparr>\<rparr>)
        = (st1, None)"
    and live: "rdb_get (m_relations_db st1) (relation_handle elem) = Some e"
    and last: "outstanding e = 1"
    and g: "gather_ways (m_members_db st1) (members (stored_relation e)) = Some ways"
    and thr: "assemble_relation assembler (stored_relation e) ways = Inl x"
    and x: "x \<noteq> invalid_location"
  shows "snd (member_way assembler st way) = Some x"
proof -
  define st2 where "st2 = st1\<lparr>m_relations_db := rdb_update (m_relations_db st1) (relation_handle elem)
                          (e\<lparr>outstanding := 0\<rparr>)\<rparr>"
  have live2: "rdb_get (m_relations_db st2) (relation_handle elem) = Some (e\<lparr>outstanding := 0\<rparr>)"
    using live by (simp add: st2_def rdb_get_update_same)
  have "snd (complete_relation assembler st2 (stored_relation e)) = Some x"
    using complete_relation_throw [of st2 "stored_relation e" ways assembler x] g thr x
    by (simp add: st2_def)
  then have "snd (on_complete assembler st2 (relation_handle elem)) = Some x"
    using on_complete_propagates [OF live2] by simp
  then have "snd (notify (on_complete assembler) (elem # rest) st1) = Some x"
    unfolding notify_completing [OF live last] st2_def [symmetric]
    by (simp add: snd_and_then_Some)
  then have "snd (notify (on_complete assembler) (pre @ elem # rest)
        (st\<lparr>m_members_db := (m_members_db st)
           \<lparr>stored_ways := stored_ways (m_members_db st) @ [(m_id way, way)], phase := draining\<rparr>\<rparr>))
        = Some x"
    by (simp add: notify_append pre)
  then have "snd (mdb_add (on_complete assembler) st way) = Some x"
    using mdb_add_propagates [OF ph m] by simp
  then show ?thesis by (rule member_way_propagates_add)
qed

section \<open>The keep decision of pass 1\<close>

text \<open>
  C1, as stated, fails in two ways. A relation tagged \<open>type=multipolygon\<close> with a
  further tag that the filter accepts is dropped when none of its members is a way. And a
  relation whose only tag is \<open>type=boundary\<close> is kept under a filter that accepts the
  type tag, although no tag other than the type tag satisfies the filter.
\<close>

theorem keep_relation_counterexample:
  "(get_value_by_key (tags sample_relation_without_way) ''type'' = Some ''multipolygon''
     \<and> match_any_of (tags_without_type (tags sample_relation_without_way)) default_filter
     \<and> \<not> keep_relation default_filter sample_relation_without_way)
   \<and> (get_value_by_key (tags sample_relation_type_only) ''type'' = Some ''boundary''
     \<and> \<not> match_any_of (tags_without_type (tags sample_relation_type_only)) default_filter
     \<and> keep_relation default_filter sample_relation_type_only)"
  by (simp add: keep_relation_def sample_relation_def sample_relation_without_way_def
      sample_relation_type_only_def match_any_of_def tags_without_type_def default_filter_def
      tag_key_def tag_value_def)

text \<open>
  C1, amended: \<open>keep_relation\<close> is true exactly when the value of the first tag with
  key \<open>type\<close> is \<open>multipolygon\<close> or \<open>boundary\<close>, some tag of the relation (the
  type tag included) satisfies the filter, and at least one member is a way.
\<close>

theorem keep_relation_iff:
  "keep_relation filter_fn r \<longleftrightarrow>
     (get_value_by_key (tags r) ''type'' = Some ''multipolygon''
        \<or> get_value_by_key (tags r) ''type'' = Some ''boundary'')
     \<and> (\<exists>tag \<in> set (tags r). filter_fn tag)
     \<and> (\<exists>member \<in> set (members r). member_type member = item_type_way)"
  by (auto simp: keep_relation_def match_any_of_def list_ex_iff split: option.splits)

section \<open>The closed-way path of pass 2\<close>

text \<open>
  C2: \<open>assemble_way\<close> invokes the single-way assembler exactly when the way has at
  least 4 node refs, the locations of the first and the last node ref are present and
  equal, the way is not tagged \<open>area=no\<close> and some tag satisfies the filter. When it
  does not invoke it, the manager is unchanged; in particular a way tagged \<open>area=no\<close>
  leaves the manager unchanged. When it invokes it and the assembler returns, the areas
  the assembler wrote are appended to the output.
\<close>

theorem assemble_way_invokes_iff:
  "(m_calls (fst (assemble_way assembler st way)) = m_calls st @ [way_call way]
      \<longleftrightarrow> 4 \<le> length (nodes way)
          \<and> location (hd (nodes way)) \<noteq> None \<and> location (last (nodes way)) \<noteq> None
          \<and> location (hd (nodes way)) = location (last (nodes way))
          \<and> \<not> has_tag (tags way) ''area'' ''no''
          \<and> (\<exists>tag \<in> set (tags way). m_filter st tag))
   \<and> (m_calls (fst (assemble_way assembler st way)) \<noteq> m_calls st @ [way_call way]
      \<longrightarrow> assemble_way assembler st way = (st, None))
   \<and> (has_tag (tags way) ''area'' ''no'' \<longrightarrow> assemble_way assembler st way = (st, None))
   \<and> (m_calls (fst (assemble_way assembler st way)) = m_calls st @ [way_call way]
      \<longrightarrow> (\<forall>areas stats. assemble_closed_way assembler way = Inr (areas, stats)
            \<longrightarrow> m_output (fst (assemble_way assembler st way)) = m_output st @ areas))"
  by (auto simp: assemble_way_def catch_invalid_location_def run_assembler_def Let_def
      ends_have_same_location_def match_none_of_def list_ex_iff split: sum.splits)

theorem assemble_way_invokes_iff_witness:
  "m_calls (fst (assemble_way sample_assembler new_manager sample_way)) = [way_call sample_way]
   \<and> m_output (fst (assemble_way sample_assembler new_manager sample_way)) =
       [\<lparr>m_id = 20, tags = [(''building'', ''yes'')], rings = [(item_type_outer_ring, nodes sample_way)]\<rparr>]
   \<and> has_tag (tags sample_way_area_no) ''area'' ''no''
   \<and> assemble_way sample_assembler new_manager sample_way_area_no = (new_manager, None)"
proof -
  have q: "4 \<le> length (nodes sample_way)
          \<and> location (hd (nodes sample_way)) \<noteq> None \<and> location (last (nodes sample_way)) \<noteq> None
          \<and> location (hd (nodes sample_way)) = location (last (nodes sample_way))
          \<and> \<not> has_tag (tags sample_way) ''area'' ''no''
          \<and> (\<exists>tag \<in> set (tags sample_way). m_filter new_manager tag)"
    by (simp add: sample_way_def has_tag_def tag_key_def new_manager_def MultipolygonManager_init_def
        default_filter_def)
  have r: "assemble_closed_way sample_assembler sample_way =
      Inr ([\<lparr>m_id = 20, tags = [(''building'', ''yes'')], rings = [(item_type_outer_ring, nodes sample_way)]\<rparr>], 1)"
    by (simp add: sample_assembler_def sample_way_def object_id_to_area_id_def std_abs_def Let_def)
  have n: "has_tag (tags sample_way_area_no) ''area'' ''no''"
    by (simp add: sample_way_area_no_def has_tag_def tag_key_def tag_value_def)
  have e: "m_calls new_manager = []" "m_output new_manager = []"
    by (simp_all add: new_manager_def MultipolygonManager_init_def)
  note t = assemble_way_invokes_iff [of sample_assembler new_manager sample_way]
  have inv: "m_calls (fst (assemble_way sample_assembler new_manager sample_way))
      = m_calls new_manager @ [way_call sample_way]"
    using t q by blast
  have out: "m_output (fst (assemble_way sample_assembler new_manager sample_way))
      = m_output new_manager @
        [\<lparr>m_id = 20, tags = [(''building'', ''yes'')], rings = [(item_type_outer_ring, nodes sample_way)]\<rparr>]"
    using t inv r by blast
  have no: "assemble_way sample_assembler new_manager sample_way_area_no = (new_manager, None)"
    using assemble_way_invokes_iff [of sample_assembler new_manager sample_way_area_no] n
    by blast
  show ?thesis
    using inv out n no by (simp only: e append_Nil simp_thms)
qed

section \<open>Exceptions in the assembler calls\<close>

text \<open>
  C5, as stated, fails: with an assembler that throws \<open>invalid_location\<close> on both
  calls, the sample way completes the sample relation and qualifies as a closed way, both
  assembler calls are made, no exception leaves \<open>member_way\<close>, and the statistics are
  what they were before. No counter is incremented.
\<close>

theorem invalid_location_counterexample:
  "m_calls (fst (member_way throwing_assembler sample_manager sample_way))
      = [relation_call stored_sample_relation [sample_way], way_call sample_way]
   \<and> assemble_relation throwing_assembler stored_sample_relation [sample_way] = Inl invalid_location
   \<and> assemble_closed_way throwing_assembler sample_way = Inl invalid_location
   \<and> snd (member_way throwing_assembler sample_manager sample_way) = None
   \<and> m_output (fst (member_way throwing_assembler sample_manager sample_way)) = []
   \<and> m_stats sample_manager = 0
   \<and> m_stats (fst (member_way throwing_assembler sample_manager sample_way)) = 0"
  by code_simp

text \<open>
  C5, amended: when \<open>invalid_location\<close> arises inside the closed-way assembler call or
  the relation assembler call, the manager catches it: nothing is written to the output,
  the statistics stay as they were, and no exception leaves the function, so the manager
  goes on with the next object. An exception of any other kind leaves
  \<open>assemble_way\<close> and \<open>complete_relation\<close>, and from there \<open>member_way\<close>:
  from the closed-way call after the members database has returned, and from the relation
  call of a relation that the way completes.
\<close>

theorem invalid_location_swallowed:
  "(m_calls (fst (assemble_way assembler st way)) = m_calls st @ [way_call way]
      \<and> assemble_closed_way assembler way = Inl invalid_location
     \<longrightarrow> assemble_way assembler st way = (st\<lparr>m_calls := m_calls st @ [way_call way]\<rparr>, None))
   \<and> (gather_ways (m_members_db st) (members r) = Some ways
      \<and> assemble_relation assembler r ways = Inl invalid_location
     \<longrightarrow> complete_relation assembler st r = (st\<lparr>m_calls := m_calls st @ [relation_call r ways]\<rparr>, None))
   \<and> (m_calls (fst (assemble_way assembler st way)) = m_calls st @ [way_call way]
      \<and> assemble_closed_way assembler way = Inl x \<and> x \<noteq> invalid_location
     \<longrightarrow> snd (assemble_way assembler st way) = Some x)
   \<and> (gather_ways (m_members_db st) (members r) = Some ways
      \<and> assemble_relation assembler r ways = Inl x \<and> x \<noteq> invalid_location
     \<longrightarrow> snd (complete_relation assembler st r) = Some x)
   \<and> (mdb_add (on_complete assembler) st way = (st1, None)
      \<and> snd (assemble_way assembler st1 way) = Some x
     \<longrightarrow> snd (member_way assembler st way) = Some x)
   \<and> (phase (m_members_db st) \<noteq> collecting
      \<and> filter (\<lambda>i. way_id i = m_id way) (interests (m_members_db st)) = pre @ elem # rest
      \<and> notify (on_complete assembler) pre
           (st\<lparr>m_members_db := (m_members_db st)
              \<lparr>stored_ways := stored_ways (m_members_db st) @ [(m_id way, way)], phase := draining\<rparr>\<rparr>)
           = (st2, None)
      \<and> rdb_get (m_relations_db st2) (relation_handle elem) = Some e \<and> outstanding e = 1
      \<and> gather_ways (m_members_db st2) (members (stored_relation e)) = Some ways2
      \<and> assemble_relation assembler (stored_relation e) ways2 = Inl x \<and> x \<noteq> invalid_location
     \<longrightarrow> snd (member_way assembler st way) = Some x)"
proof (intro conjI impI)
  assume "m_calls (fst (assemble_way assembler st way)) = m_calls st @ [way_call way]
      \<and> assemble_closed_way assembler way = Inl invalid_location"
  then show "assemble_way assembler st way = (st\<lparr>m_calls := m_calls st @ [way_call way]\<rparr>, None)"
    using assemble_way_throw [of assembler st way invalid_location] by simp
next
  assume "gather_ways (m_members_db st) (members r) = Some ways
      \<and> assemble_relation assembler r ways = Inl invalid_location"
  then show "complete_relation assembler st r = (st\<lparr>m_calls := m_calls st @ [relation_call r ways]\<rparr>, None)"
    using complete_relation_throw [of st r ways assembler invalid_location] by simp
next
  assume "m_calls (fst (assemble_way assembler st way)) = m_calls st @ [way_call way]
      \<and> assemble_closed_way assembler way = Inl x \<and> x \<noteq> invalid_location"
  then show "snd (assemble_way assembler st way) = Some x"
    using assemble_way_throw [of assembler st way x] by simp
next
  assume "gather_ways (m_members_db st) (members r) = Some ways
      \<and> assemble_relation assembler r ways = Inl x \<and> x \<noteq> invalid_location"
  then show "snd (complete_relation assembler st r) = Some x"
    using complete_relation_throw [of st r ways assembler x] by simp
next
  assume "mdb_add (on_complete assembler) st way = (st1, None)
      \<and> snd (assemble_way assembler st1 way) = Some x"
  then show "snd (member_way assembler st way) = Some x"
    using member_way_after_add [of assembler st way st1] by simp
next
  assume "phase (m_members_db st) \<noteq> collecting
      \<and> filter (\<lambda>i. way_id i = m_id way) (interests (m_members_db st)) = pre @ elem # rest
      \<and> notify (on_complete assembler) pre
           (st\<lparr>m_members_db := (m_members_db st)
              \<lparr>stored_ways := stored_ways (m_members_db st) @ [(m_id way, way)], phase := draining\<rparr>\<rparr>)
           = (st2, None)
      \<and> rdb_get (m_relations_db st2) (relation_handle elem) = Some e \<and> outstanding e = 1
      \<and> gather_ways (m_members_db st2) (members (stored_relation e)) = Some ways2
      \<and> assemble_relation assembler (stored_relation e) ways2 = Inl x \<and> x \<noteq> invalid_location"
  then show "snd (member_way assembler st way) = Some x"
    using member_way_relation_throw [of st way pre elem rest assembler st2 e ways2 x] by simp
qed

theorem invalid_location_swallowed_witness:
  "assemble_way throwing_assembler completing_manager sample_way =
      (completing_manager\<lparr>m_calls := m_calls completing_manager @ [way_call sample_way]\<rparr>, None)
   \<and> complete_relation throwing_assembler completing_manager stored_sample_relation =
      (completing_manager\<lparr>m_calls := m_calls completing_manager @
          [relation_call stored_sample_relation [sample_way]]\<rparr>, None)
   \<and> snd (assemble_way failing_assembler completing_manager sample_way) = Some (other_exception ''assembler'')
   \<and> snd (complete_relation failing_assembler completing_manager stored_sample_relation)
       = Some (other_exception ''assembler'')
   \<and> snd (member_way failing_assembler (prepare new_manager) sample_way) = Some (other_exception ''assembler'')
   \<and> snd (member_way failing_assembler sample_manager sample_way) = Some (other_exception ''assembler'')"
proof -
  have f: "m_filter completing_manager = default_filter" "m_filter (prepare new_manager) = default_filter"
    by (simp_all add: completing_manager_eq prepare_def new_manager_def MultipolygonManager_init_def)
  have inv: "m_calls (fst (assemble_way assembler completing_manager sample_way))
      = m_calls completing_manager @ [way_call sample_way]" for assembler :: "nat TAssembler"
    by (simp add: assemble_way_sample [OF f(1)] catch_invalid_location_def run_assembler_def Let_def
        split: sum.splits)
  have thr: "assemble_closed_way throwing_assembler sample_way = Inl invalid_location"
    "assemble_relation throwing_assembler stored_sample_relation [sample_way] = Inl invalid_location"
    by (simp_all add: throwing_assembler_def)
  have fl: "assemble_closed_way failing_assembler sample_way = Inl (other_exception ''assembler'')"
    "assemble_relation failing_assembler stored_sample_relation [sample_way]
       = Inl (other_exception ''assembler'')"
    by (simp_all add: failing_assembler_def)
  have ne: "other_exception ''assembler'' \<noteq> invalid_location" by simp
  note a = invalid_location_swallowed [where assembler = throwing_assembler
      and st = completing_manager and way = sample_way and r = stored_sample_relation
      and ways = "[sample_way]"]
  have c1: "assemble_way throwing_assembler completing_manager sample_way =
      (completing_manager\<lparr>m_calls := m_calls completing_manager @ [way_call sample_way]\<rparr>, None)"
    using a inv thr(1) by blast
  have c2: "complete_relation throwing_assembler completing_manager stored_sample_relation =
      (completing_manager\<lparr>m_calls := m_calls completing_manager @
          [relation_call stored_sample_relation [sample_way]]\<rparr>, None)"
    using a gather_sample thr(2) by blast
  note b = invalid_location_swallowed [where assembler = failing_assembler
      and st = completing_manager and way = sample_way and r = stored_sample_relation
      and ways = "[sample_way]" and x = "other_exception ''assembler''"]
  have c3: "snd (assemble_way failing_assembler completing_manager sample_way)
      = Some (other_exception ''assembler'')"
    using b inv fl(1) ne by blast
  have c4: "snd (complete_relation failing_assembler completing_manager stored_sample_relation)
      = Some (other_exception ''assembler'')"
    using b gather_sample fl(2) ne by blast
  have add0: "mdb_add (on_complete failing_assembler) (prepare new_manager) sample_way
      = (prepare new_manager, None)"
    by (simp add: mdb_add_def prepare_def mdb_prepare_def new_manager_def MultipolygonManager_init_def)
  have w0: "snd (assemble_way failing_assembler (prepare new_manager) sample_way)
      = Some (other_exception ''assembler'')"
    by (simp add: assemble_way_sample [OF f(2)] catch_invalid_location_def run_assembler_def Let_def fl)
  have c5: "snd (member_way failing_assembler (prepare new_manager) sample_way)
      = Some (other_exception ''assembler'')"
    using invalid_location_swallowed [where assembler = failing_assembler and way = sample_way
        and x = "other_exception ''assembler''" and st = "prepare new_manager"
        and ?st1.0 = "prepare new_manager"] add0 w0
    by blast
  have h1: "phase (m_members_db sample_manager) \<noteq> collecting"
    by (simp add: sample_manager_eq)
  have h2: "filter (\<lambda>i. way_id i = m_id sample_way) (interests (m_members_db sample_manager))
      = [] @ \<lparr>way_id = 10, relation_handle = 0, slot_index = 1\<rparr> # []"
    by (simp add: sample_manager_eq sample_way_def)
  have h3: "notify (on_complete failing_assembler) []
      (sample_manager\<lparr>m_members_db := (m_members_db sample_manager)
          \<lparr>stored_ways := stored_ways (m_members_db sample_manager) @ [(m_id sample_way, sample_way)],
           phase := draining\<rparr>\<rparr>) = (completing_manager, None)"
    by (simp add: completing_manager_def)
  have h4: "rdb_get (m_relations_db completing_manager)
        (relation_handle \<lparr>way_id = 10, relation_handle = 0, slot_index = 1\<rparr>)
      = Some \<lparr>stored_relation = stored_sample_relation, outstanding = 1\<rparr>"
    "outstanding \<lparr>stored_relation = stored_sample_relation, outstanding = 1\<rparr> = 1"
    "gather_ways (m_members_db completing_manager)
        (members (stored_relation \<lparr>stored_relation = stored_sample_relation, outstanding = 1\<rparr>))
      = Some [sample_way]"
    "assemble_relation failing_assembler
        (stored_relation \<lparr>stored_relation = stored_sample_relation, outstanding = 1\<rparr>) [sample_way]
      = Inl (other_exception ''assembler'')"
    using gather_sample fl(2) by (simp_all add: completing_manager_eq rdb_get_def)
  have c6: "snd (member_way failing_assembler sample_manager sample_way)
      = Some (other_exception ''assembler'')"
    using invalid_location_swallowed [where assembler = failing_assembler and st = sample_manager
        and way = sample_way and x = "other_exception ''assembler''" and pre = "[]"
        and elem = "\<lparr>way_id = 10, relation_handle = 0, slot_index = 1\<rparr>" and rest = "[]"
        and ?st2.0 = completing_manager
        and e = "\<lparr>stored_relation = stored_sample_relation, outstanding = 1\<rparr>"
        and ?ways2.0 = "[sample_way]"] h1 h2 h3 h4 ne
    by blast
  show ?thesis using c1 c2 c3 c4 c5 c6 by blast
qed

section \<open>Pass 1: registering the members of a kept relation\<close>

lemma walk_members_result:
  assumes "phase (m_members_db st) = collecting"
    and "h < length (m_relations_db st)"
    and "m_relations_db st ! h = Some e"
    and "members (stored_relation e) = pre @ ms"
    and "length pre = n"
  shows "walk_members h ms n st =
     (st\<lparr>m_relations_db := (m_relations_db st)[h := Some (e\<lparr>
            stored_relation := (stored_relation e)\<lparr>members := pre @ map zero_unless_way ms\<rparr>,
            outstanding := outstanding e + length (filter (\<lambda>member. member_type member = item_type_way) ms)\<rparr>)],
          m_members_db := (m_members_db st)\<lparr>interests := interests (m_members_db st) @ way_interests h n ms\<rparr>\<rparr>,
      None)"
  using assms
proof (induction ms arbitrary: st e pre n)
  case Nil
  have "pre = members (stored_relation e)"
    using Nil.prems by simp
  moreover have "(m_relations_db st)[h := Some e] = m_relations_db st"
    using Nil.prems list_update_id [of "m_relations_db st" h] by simp
  ultimately show ?case
    by (simp add: way_interests_def)
next
  case (Cons member rest)
  show ?case
  proof (cases "member_type member = item_type_way")
    case True
    define e1 where "e1 = e\<lparr>outstanding := Suc (outstanding e)\<rparr>"
    define st1 where "st1 = st\<lparr>m_members_db := (m_members_db st)\<lparr>interests := interests (m_members_db st) @
                  [\<lparr>way_id = ref member, relation_handle = h, slot_index = n\<rparr>]\<rparr>,
              m_relations_db := (m_relations_db st)[h := Some e1]\<rparr>"
    have tr: "mdb_track st h (ref member) n = (st1, None)"
      using Cons.prems by (simp add: mdb_track_def rdb_get_def rdb_update_def st1_def e1_def)
    have ih: "walk_members h rest (Suc n) st1 = 
       (st1\<lparr>m_relations_db := (m_relations_db st1)[h := Some (e1\<lparr>
            stored_relation := (stored_relation e1)\<lparr>members := (pre @ [member]) @ map zero_unless_way rest\<rparr>,
            outstanding := outstanding e1 + length (filter (\<lambda>member. member_type member = item_type_way) rest)\<rparr>)],
          m_members_db := (m_members_db st1)\<lparr>interests := interests (m_members_db st1) @ way_interests h (Suc n) rest\<rparr>\<rparr>,
      None)"
      using Cons.prems by (intro Cons.IH) (simp_all add: st1_def e1_def)
    have step: "walk_members h (member # rest) n st = walk_members h rest (Suc n) st1"
      using True tr by simp
    have wi: "way_interests h n (member # rest) =
        \<lparr>way_id = ref member, relation_handle = h, slot_index = n\<rparr> # way_interests h (Suc n) rest"
      using True by (simp add: way_interests_def)
    have z: "zero_unless_way member = member"
      using True by (simp add: zero_unless_way_def)
    show ?thesis
      unfolding step ih wi
      by (simp add: st1_def e1_def z True)
  next
    case False
    define e1 where "e1 = e\<lparr>stored_relation := (stored_relation e)\<lparr>members := pre @ member\<lparr>ref := 0\<rparr> # rest\<rparr>\<rparr>"
    define st1 where "st1 = st\<lparr>m_relations_db := (m_relations_db st)[h := Some e1]\<rparr>"
    have sr: "set_member_ref st h n 0 = st1"
      using Cons.prems
      by (auto simp: set_member_ref_def rdb_get_def rdb_update_def st1_def e1_def Let_def nth_append
          list_update_append)
    have ih: "walk_members h rest (Suc n) st1 = 
       (st1\<lparr>m_relations_db := (m_relations_db st1)[h := Some (e1\<lparr>
            stored_relation := (stored_relation e1)\<lparr>members := (pre @ [member\<lparr>ref := 0\<rparr>]) @ map zero_unless_way rest\<rparr>,
            outstanding := outstanding e1 + length (filter (\<lambda>member. member_type member = item_type_way) rest)\<rparr>)],
          m_members_db := (m_members_db st1)\<lparr>interests := interests (m_members_db st1) @ way_interests h (Suc n) rest\<rparr>\<rparr>,
      None)"
      using Cons.prems by (intro Cons.IH) (simp_all add: st1_def e1_def)
    have step: "walk_members h (member # rest) n st = walk_members h rest (Suc n) st1"
      using False sr by simp
    have wi: "way_interests h n (member # rest) = way_interests h (Suc n) rest"
      using False by (simp add: way_interests_def)
    have z: "zero_unless_way member = member\<lparr>ref := 0\<rparr>"
      using False by (simp add: zero_unless_way_def)
    show ?thesis
      unfolding step ih wi
      by (simp add: st1_def e1_def z False)
  qed
qed

text \<open>
  C6: for a relation that \<open>keep_relation\<close> accepts, with the members database still
  collecting, \<open>relation()\<close> stores the relation under a new handle, registers one
  interest (way id, handle, slot) for each member of type way with the slots counted from
  0, and leaves every other member in its slot with its id set to 0 and its other fields
  as they were; the outstanding count of the relation is the number of its way members.
  Nothing else in the manager changes.
\<close>

theorem relation_registers_way_members:
  assumes "keep_relation (m_filter st) r" and "phase (m_members_db st) = collecting"
  shows "relation st r =
     (st\<lparr>m_relations_db := m_relations_db st @
            [Some \<lparr>stored_relation = r\<lparr>members := map zero_unless_way (members r)\<rparr>,
                   outstanding = length (filter (\<lambda>member. member_type member = item_type_way) (members r))\<rparr>],
          m_members_db := (m_members_db st)\<lparr>interests := interests (m_members_db st) @
            way_interests (length (m_relations_db st)) 0 (members r)\<rparr>\<rparr>,
      None)"
proof -
  define st0 where "st0 = st\<lparr>m_relations_db := m_relations_db st @ [Some \<lparr>stored_relation = r, outstanding = 0\<rparr>]\<rparr>"
  have "walk_members (length (m_relations_db st)) (members r) 0 st0 =
     (st0\<lparr>m_relations_db := (m_relations_db st0)[length (m_relations_db st) := Some (\<lparr>stored_relation = r, outstanding = 0\<rparr>\<lparr>
            stored_relation := (stored_relation \<lparr>stored_relation = r, outstanding = 0\<rparr>)\<lparr>members := [] @ map zero_unless_way (members r)\<rparr>,
            outstanding := outstanding \<lparr>stored_relation = r, outstanding = 0\<rparr> + length (filter (\<lambda>member. member_type member = item_type_way) (members r))\<rparr>)],
          m_members_db := (m_members_db st0)\<lparr>interests := interests (m_members_db st0) @ way_interests (length (m_relations_db st)) 0 (members r)\<rparr>\<rparr>,
      None)"
    using assms(2) by (intro walk_members_result) (simp_all add: st0_def)
  then show ?thesis
    using assms(1) by (simp add: relation_def rdb_add_def st0_def)
qed

theorem relation_registers_way_members_witness:
  "keep_relation (m_filter new_manager) sample_relation
   \<and> phase (m_members_db new_manager) = collecting
   \<and> relation new_manager sample_relation =
       (new_manager\<lparr>m_relations_db :=
            [Some \<lparr>stored_relation = stored_sample_relation, outstanding = 1\<rparr>],
          m_members_db := (m_members_db new_manager)\<lparr>interests :=
            [\<lparr>way_id = 10, relation_handle = 0, slot_index = 1\<rparr>]\<rparr>\<rparr>, None)"
proof -
  have k: "keep_relation (m_filter new_manager) sample_relation"
    by (simp add: keep_relation_def sample_relation_def new_manager_def MultipolygonManager_init_def
        match_any_of_def default_filter_def tag_key_def tag_value_def)
  have p: "phase (m_members_db new_manager) = collecting"
    by (simp add: new_manager_def MultipolygonManager_init_def)
  have z: "sample_relation\<lparr>members := map zero_unless_way (members sample_relation)\<rparr>
      = stored_sample_relation"
    by (simp add: stored_sample_relation_def sample_relation_def zero_unless_way_def)
  have n: "length (filter (\<lambda>member. member_type member = item_type_way) (members sample_relation)) = 1"
    by (simp add: sample_relation_def)
  have w: "way_interests 0 0 (members sample_relation)
      = [\<lparr>way_id = 10, relation_handle = 0, slot_index = 1\<rparr>]"
    by (simp add: way_interests_def sample_relation_def)
  have e: "m_relations_db new_manager = []" "interests (m_members_db new_manager) = []"
    by (simp_all add: new_manager_def MultipolygonManager_init_def)
  show ?thesis
    using relation_registers_way_members [OF k p] k p
    by (simp only: z n e list.size w append_Nil simp_thms)
qed

section \<open>Pass 2: the order of the output\<close>

lemma only_relation_calls_refl: "only_relation_calls_since st st"
  by (simp add: only_relation_calls_since_def)

lemma only_relation_calls_trans:
  assumes "only_relation_calls_since st st1" and "only_relation_calls_since st1 st2"
  shows "only_relation_calls_since st st2"
proof -
  obtain a where a: "m_calls st1 = m_calls st @ a" and la: "list_all is_relation_call a"
    using assms(1) by (auto simp: only_relation_calls_since_def prefix_def)
  obtain b where b: "m_calls st2 = m_calls st1 @ b" and lb: "list_all is_relation_call b"
    using assms(2) by (auto simp: only_relation_calls_since_def prefix_def)
  have "prefix (m_output st) (m_output st2)"
    using assms by (auto simp: only_relation_calls_since_def)
  then show ?thesis
    using a b la lb by (simp add: only_relation_calls_since_def)
qed

lemma only_relation_calls_same:
  "m_output st' = m_output st \<Longrightarrow> m_calls st' = m_calls st \<Longrightarrow> only_relation_calls_since st st'"
  by (simp add: only_relation_calls_since_def)

lemma complete_relation_extends:
  "only_relation_calls_since st (fst (complete_relation assembler st r))"
  by (auto simp: complete_relation_def run_assembler_def catch_invalid_location_def Let_def
      only_relation_calls_since_def split: option.splits sum.splits)

lemma remove_members_loop_keeps:
  "m_output (fst (remove_members_loop st rid ms)) = m_output st \<and>
   m_calls (fst (remove_members_loop st rid ms)) = m_calls st"
  by (induction ms arbitrary: st) simp_all

lemma on_complete_extends:
  "only_relation_calls_since st (fst (on_complete assembler st h))"
proof (cases "rdb_get (m_relations_db st) h")
  case None
  then show ?thesis by (simp add: on_complete_def only_relation_calls_refl)
next
  case (Some e)
  obtain st1 x1 where c: "complete_relation assembler st (stored_relation e) = (st1, x1)"
    by (cases "complete_relation assembler st (stored_relation e)")
  have e1: "only_relation_calls_since st st1"
    using complete_relation_extends [of st assembler "stored_relation e"] c by simp
  show ?thesis
  proof (cases x1)
    case (Some x)
    then show ?thesis using \<open>rdb_get (m_relations_db st) h = Some e\<close> c e1
      by (simp add: on_complete_def)
  next
    case None
    obtain st2 x2 where r: "remove_members st1 (stored_relation e) = (st2, x2)"
      by (cases "remove_members st1 (stored_relation e)")
    have k: "m_output st2 = m_output st1" "m_calls st2 = m_calls st1"
      using remove_members_loop_keeps [of st1 "m_id (stored_relation e)" "members (stored_relation e)"] r
      by (simp_all add: remove_members_def)
    have "only_relation_calls_since st1 (fst (on_complete assembler st h))"
      using \<open>rdb_get (m_relations_db st) h = Some e\<close> c None r k
      by (cases x2) (simp_all add: on_complete_def only_relation_calls_same)
    with e1 show ?thesis by (rule only_relation_calls_trans)
  qed
qed

lemma notify_extends:
  assumes "\<And>st h. only_relation_calls_since st (fst (func st h))"
  shows "only_relation_calls_since st (fst (notify func elems st))"
proof (induction elems arbitrary: st)
  case Nil
  show ?case by (simp add: only_relation_calls_refl)
next
  case (Cons elem rest)
  show ?case
  proof (cases "rdb_get (m_relations_db st) (relation_handle elem)")
    case None
    then show ?thesis by (simp add: only_relation_calls_refl)
  next
    case (Some e)
    define st1 where "st1 = st\<lparr>m_relations_db := rdb_update (m_relations_db st) (relation_handle elem)
                              (e\<lparr>outstanding := outstanding e - 1\<rparr>)\<rparr>"
    have s1: "only_relation_calls_since st st1"
      by (simp add: st1_def only_relation_calls_same)
    consider "outstanding e = 0" | "outstanding e = 1" | "1 < outstanding e" by linarith
    then show ?thesis
    proof cases
      case 1
      then show ?thesis using Some by (simp add: only_relation_calls_refl)
    next
      case 2
      obtain st2 x2 where f: "func st1 (relation_handle elem) = (st2, x2)"
        by (cases "func st1 (relation_handle elem)")
      have s2: "only_relation_calls_since st1 st2"
        using assms [of st1 "relation_handle elem"] f by simp
      have st1_eq: "st1 = st\<lparr>m_relations_db := rdb_update (m_relations_db st) (relation_handle elem)
                              (e\<lparr>outstanding := 0\<rparr>)\<rparr>"
        using 2 by (simp add: st1_def)
      have "notify func (elem # rest) st = and_then (st2, x2) (notify func rest)"
        unfolding notify_completing [OF Some 2] st1_eq [symmetric] f ..
      then have "only_relation_calls_since st2 (fst (notify func (elem # rest) st))"
        using Cons.IH [of st2]
        by (cases x2) (simp_all add: only_relation_calls_refl)
      then show ?thesis
        using s1 s2 only_relation_calls_trans by blast
    next
      case 3
      then have "notify func (elem # rest) st = notify func rest st1"
        using Some by (simp add: Let_def st1_def)
      then show ?thesis
        using s1 Cons.IH [of st1] only_relation_calls_trans by metis
    qed
  qed
qed

lemma mdb_add_extends:
  assumes "\<And>st h. only_relation_calls_since st (fst (func st h))"
  shows "only_relation_calls_since st (fst (mdb_add func st way))"
proof -
  define st0 where "st0 = st\<lparr>m_members_db := (m_members_db st)
       \<lparr>stored_ways := stored_ways (m_members_db st) @ [(m_id way, way)], phase := draining\<rparr>\<rparr>"
  define matching where "matching = filter (\<lambda>i. way_id i = m_id way) (interests (m_members_db st))"
  obtain st1 x1 where n: "notify func matching st0 = (st1, x1)"
    by (cases "notify func matching st0")
  have "only_relation_calls_since st st0"
    by (simp add: st0_def only_relation_calls_same)
  moreover have "only_relation_calls_since st0 (fst (notify func matching st0))"
    by (rule notify_extends) (rule assms)
  then have "only_relation_calls_since st0 st1"
    using n by simp
  ultimately have s: "only_relation_calls_since st st1"
    by (rule only_relation_calls_trans)
  have "only_relation_calls_since st1 (fst (and_then (st1, x1) (\<lambda>st1. (st1\<lparr>m_members_db := (m_members_db st1)\<lparr>interests :=
                            filter (\<lambda>i. way_id i \<noteq> m_id way) (interests (m_members_db st1))\<rparr>\<rparr>, None))))"
    by (cases x1) (simp_all add: only_relation_calls_same only_relation_calls_refl)
  with s have "only_relation_calls_since st (fst (and_then (notify func matching st0) (\<lambda>st1. (st1\<lparr>m_members_db := (m_members_db st1)\<lparr>interests :=
                            filter (\<lambda>i. way_id i \<noteq> m_id way) (interests (m_members_db st1))\<rparr>\<rparr>, None))))"
    unfolding n by (rule only_relation_calls_trans)
  then show ?thesis
    by (simp add: mdb_add_def Let_def st0_def matching_def only_relation_calls_refl)
qed

lemma assemble_way_cases:
  "assemble_way assembler st way = (st, None) \<or>
   assemble_way assembler st way =
     catch_invalid_location (run_assembler st (way_call way) (assemble_closed_way assembler way))"
  by (simp add: assemble_way_def catch_invalid_location_def)

text \<open>
  C4, as stated, fails: the sample way completes the sample relation and qualifies as a
  closed way; the relation assembler is called first and the way assembler second, and
  the area of the relation (id 15) stands before the area of the way (id 20) in the
  output.
\<close>

theorem emission_order_counterexample:
  "m_calls (fst (member_way sample_assembler sample_manager sample_way))
      = [relation_call stored_sample_relation [sample_way], way_call sample_way]
   \<and> map m_id (m_output (fst (member_way sample_assembler sample_manager sample_way)))
      = [object_id_to_area_id (m_id sample_relation) item_type_relation,
         object_id_to_area_id (m_id sample_way) item_type_way]
   \<and> map m_id (m_output (fst (member_way sample_assembler sample_manager sample_way))) = [15, 20]"
  by code_simp

text \<open>
  C4, amended: within one \<open>member_way\<close> step the way is offered to the members
  database first, and all that this adds to the output are areas from calls of the
  relation assembler; the closed-way call, if it is made at all, is the last call of the
  step, and its areas are appended after them. So every relation area completed by a way
  stands before the closed-way area of that way.
\<close>

theorem relation_areas_precede_way_area:
  "only_relation_calls_since st (fst (mdb_add (on_complete assembler) st way))
   \<and> ((m_calls (fst (member_way assembler st way))
          = m_calls (fst (mdb_add (on_complete assembler) st way))
       \<and> m_output (fst (member_way assembler st way))
          = m_output (fst (mdb_add (on_complete assembler) st way)))
     \<or> (m_calls (fst (member_way assembler st way))
          = m_calls (fst (mdb_add (on_complete assembler) st way)) @ [way_call way]
       \<and> m_output (fst (member_way assembler st way))
          = m_output (fst (mdb_add (on_complete assembler) st way)) @
            (case assemble_closed_way assembler way of Inl x \<Rightarrow> [] | Inr (areas, stats) \<Rightarrow> areas)))"
proof
  show "only_relation_calls_since st (fst (mdb_add (on_complete assembler) st way))"
    by (rule mdb_add_extends) (rule on_complete_extends)
next
  obtain st1 x1 where a: "mdb_add (on_complete assembler) st way = (st1, x1)"
    by (cases "mdb_add (on_complete assembler) st way")
  show "(m_calls (fst (member_way assembler st way))
          = m_calls (fst (mdb_add (on_complete assembler) st way))
       \<and> m_output (fst (member_way assembler st way))
          = m_output (fst (mdb_add (on_complete assembler) st way)))
     \<or> (m_calls (fst (member_way assembler st way))
          = m_calls (fst (mdb_add (on_complete assembler) st way)) @ [way_call way]
       \<and> m_output (fst (member_way assembler st way))
          = m_output (fst (mdb_add (on_complete assembler) st way)) @
            (case assemble_closed_way assembler way of Inl x \<Rightarrow> [] | Inr (areas, stats) \<Rightarrow> areas))"
  proof (cases x1)
    case (Some x)
    then show ?thesis using a by (simp add: member_way_def)
  next
    case None
    then have m: "member_way assembler st way = assemble_way assembler st1 way"
      using a by (simp add: member_way_def)
    show ?thesis
      using assemble_way_cases [of assembler st1 way]
      unfolding m a
      by (auto simp: catch_invalid_location_def run_assembler_def Let_def split: sum.splits)
  qed
qed

section \<open>Pass 2: the completion closure\<close>

lemma gather_ways_stored:
  "list_all (\<lambda>member. ref member = 0 \<or> mdb_get db (ref member) \<noteq> None) ms \<Longrightarrow>
   gather_ways db ms =
     Some (map (\<lambda>member. the (mdb_get db (ref member))) (filter (\<lambda>member. ref member \<noteq> 0) ms))"
  by (induction ms) auto

lemma gather_ways_missing:
  "\<not> list_all (\<lambda>member. ref member = 0 \<or> mdb_get db (ref member) \<noteq> None) ms \<Longrightarrow>
   gather_ways db ms = None"
  by (induction ms) (auto split: option.splits)

lemma remove_members_loop_result:
  assumes "list_all (\<lambda>member. ref member = 0 \<or> member_type member = item_type_way) ms"
  shows "remove_members_loop st rid ms =
     (st\<lparr>m_members_db := (m_members_db st)\<lparr>interests :=
          filter (\<lambda>i. \<not> list_ex (\<lambda>member. ref member \<noteq> 0 \<and>
                     interest_matches (m_relations_db st) (ref member) rid i) ms)
            (interests (m_members_db st))\<rparr>\<rparr>, None)"
  using assms
proof (induction ms arbitrary: st)
  case Nil
  show ?case by simp
next
  case (Cons member rest)
  show ?case
  proof (cases "ref member = 0")
    case True
    then show ?thesis using Cons by simp
  next
    case False
    then have w: "member_type member = item_type_way" using Cons.prems by simp
    have r: "list_all (\<lambda>member. ref member = 0 \<or> member_type member = item_type_way) rest"
      using Cons.prems by simp
    show ?thesis
      using False w
      by (simp add: Cons.IH [OF r] mdb_remove_def conj_commute cong: filter_cong)
  qed
qed

lemma remove_members_loop_assert:
  "\<not> list_all (\<lambda>member. ref member = 0 \<or> member_type member = item_type_way) ms \<Longrightarrow>
   snd (remove_members_loop st rid ms) = Some contract_violation"
  by (induction ms arbitrary: st) auto

lemma rdb_get_remove_same: "rdb_get (rdb_remove db h) h = None"
  by (simp add: rdb_get_def rdb_remove_def)

lemma on_complete_missing:
  assumes "rdb_get (m_relations_db st) h = Some e"
    and "\<not> payloads_stored (m_members_db st) (stored_relation e)"
  shows "on_complete assembler st h = (st, Some contract_violation)"
  using assms gather_ways_missing [of "m_members_db st" "members (stored_relation e)"]
  by (simp add: on_complete_def complete_relation_def payloads_stored_def)

lemma complete_relation_stored:
  assumes "payloads_stored (m_members_db st) r"
  shows "complete_relation assembler st r =
     catch_invalid_location (run_assembler st (relation_call r (resolved_ways (m_members_db st) r))
        (assemble_relation assembler r (resolved_ways (m_members_db st) r)))"
  using assms gather_ways_stored [of "m_members_db st" "members r"]
  by (simp add: complete_relation_def payloads_stored_def resolved_ways_def)

lemma on_complete_throws:
  assumes "rdb_get (m_relations_db st) h = Some e"
    and "payloads_stored (m_members_db st) (stored_relation e)"
    and "assemble_relation assembler (stored_relation e)
           (resolved_ways (m_members_db st) (stored_relation e)) = Inl x"
    and "x \<noteq> invalid_location"
  shows "on_complete assembler st h =
     (st\<lparr>m_calls := m_calls st @
          [relation_call (stored_relation e) (resolved_ways (m_members_db st) (stored_relation e))]\<rparr>,
      Some x)"
  using assms
  by (simp add: on_complete_def complete_relation_stored run_assembler_def
      catch_invalid_location_def Let_def)

lemma on_complete_returns:
  assumes live: "rdb_get (m_relations_db st) h = Some e"
    and stored: "payloads_stored (m_members_db st) (stored_relation e)"
    and asserted: "members_asserted (stored_relation e)"
    and res: "assemble_relation assembler (stored_relation e)
           (resolved_ways (m_members_db st) (stored_relation e)) = Inr (areas, stats)"
  shows "on_complete assembler st h =
     (completed st h (stored_relation e) (resolved_ways (m_members_db st) (stored_relation e))
        (m_output st @ areas) (m_stats st + stats), None)"
proof -
  define r where "r = stored_relation e"
  define ways where "ways = resolved_ways (m_members_db st) r"
  define st1 where "st1 = st\<lparr>m_calls := m_calls st @ [relation_call r ways],
      m_output := m_output st @ areas, m_stats := m_stats st + stats\<rparr>"
  have c: "complete_relation assembler st r = (st1, None)"
    using stored res
    by (simp add: complete_relation_stored r_def ways_def st1_def run_assembler_def
        catch_invalid_location_def Let_def)
  have rm: "remove_members st1 r =
     (st1\<lparr>m_members_db := (m_members_db st1)\<lparr>interests :=
          filter (\<lambda>i. \<not> list_ex (\<lambda>member. ref member \<noteq> 0 \<and>
                     interest_matches (m_relations_db st1) (ref member) (m_id r) i) (members r))
            (interests (m_members_db st1))\<rparr>\<rparr>, None)"
    unfolding remove_members_def
    using asserted by (intro remove_members_loop_result) (simp add: members_asserted_def r_def)
  show ?thesis
    using live c rm
    by (simp add: on_complete_def r_def [symmetric] ways_def [symmetric] completed_def st1_def)
qed

lemma on_complete_swallows:
  assumes live: "rdb_get (m_relations_db st) h = Some e"
    and stored: "payloads_stored (m_members_db st) (stored_relation e)"
    and asserted: "members_asserted (stored_relation e)"
    and res: "assemble_relation assembler (stored_relation e)
           (resolved_ways (m_members_db st) (stored_relation e)) = Inl invalid_location"
  shows "on_complete assembler st h =
     (completed st h (stored_relation e) (resolved_ways (m_members_db st) (stored_relation e))
        (m_output st) (m_stats st), None)"
proof -
  define r where "r = stored_relation e"
  define ways where "ways = resolved_ways (m_members_db st) r"
  define st1 where "st1 = st\<lparr>m_calls := m_calls st @ [relation_call r ways]\<rparr>"
  have c: "complete_relation assembler st r = (st1, None)"
    using stored res
    by (simp add: complete_relation_stored r_def ways_def st1_def run_assembler_def
        catch_invalid_location_def Let_def)
  have rm: "remove_members st1 r =
     (st1\<lparr>m_members_db := (m_members_db st1)\<lparr>interests :=
          filter (\<lambda>i. \<not> list_ex (\<lambda>member. ref member \<noteq> 0 \<and>
                     interest_matches (m_relations_db st1) (ref member) (m_id r) i) (members r))
            (interests (m_members_db st1))\<rparr>\<rparr>, None)"
    unfolding remove_members_def
    using asserted by (intro remove_members_loop_result) (simp add: members_asserted_def r_def)
  show ?thesis
    using live c rm
    by (simp add: on_complete_def r_def [symmetric] ways_def [symmetric] completed_def st1_def)
qed

lemma on_complete_assert_fails:
  assumes live: "rdb_get (m_relations_db st) h = Some e"
    and stored: "payloads_stored (m_members_db st) (stored_relation e)"
    and asserted: "\<not> members_asserted (stored_relation e)"
    and res: "assemble_relation assembler (stored_relation e)
           (resolved_ways (m_members_db st) (stored_relation e)) = Inl invalid_location
         \<or> (\<exists>res. assemble_relation assembler (stored_relation e)
           (resolved_ways (m_members_db st) (stored_relation e)) = Inr res)"
  shows "snd (on_complete assembler st h) = Some contract_violation"
proof -
  obtain st1 where c: "complete_relation assembler st (stored_relation e) = (st1, None)"
    using stored res
    by (auto simp: complete_relation_stored run_assembler_def catch_invalid_location_def Let_def)
  have "snd (remove_members st1 (stored_relation e)) = Some contract_violation"
    unfolding remove_members_def
    using asserted by (intro remove_members_loop_assert) (simp add: members_asserted_def)
  then show ?thesis
    using live c by (simp add: on_complete_def snd_and_then_Some)
qed

lemma member_way_reaches_closure:
  assumes ph: "phase (m_members_db st) \<noteq> collecting"
    and m: "filter (\<lambda>i. way_id i = m_id way) (interests (m_members_db st)) = pre @ elem # rest"
    and pre: "notify (on_complete assembler) pre
        (st\<lparr>m_members_db := (m_members_db st)
           \<lparr>stored_ways := stored_ways (m_members_db st) @ [(m_id way, way)], phase := draining\<rparr>\<rparr>)
        = (st1, None)"
    and live: "rdb_get (m_relations_db st1) (relation_handle elem) = Some e"
    and last: "outstanding e = 1"
  shows "member_way assembler st way =
     and_then (on_complete assembler
                 (st1\<lparr>m_relations_db := rdb_update (m_relations_db st1) (relation_handle elem)
                        (e\<lparr>outstanding := 0\<rparr>)\<rparr>) (relation_handle elem))
       (\<lambda>st3. rest_of_member_way assembler st3 rest way)"
proof -
  have "notify (on_complete assembler) (pre @ elem # rest)
        (st\<lparr>m_members_db := (m_members_db st)
           \<lparr>stored_ways := stored_ways (m_members_db st) @ [(m_id way, way)], phase := draining\<rparr>\<rparr>)
      = and_then (on_complete assembler
                 (st1\<lparr>m_relations_db := rdb_update (m_relations_db st1) (relation_handle elem)
                        (e\<lparr>outstanding := 0\<rparr>)\<rparr>) (relation_handle elem))
          (notify (on_complete assembler) rest)"
    by (simp only: notify_append pre and_then_None notify_completing [OF live last])
  then show ?thesis
    using ph m
    by (simp add: member_way_def mdb_add_def Let_def rest_of_member_way_def and_then_assoc)
qed

lemma closure_entry_manager_eq:
  "closure_entry_manager =
     \<lparr>m_relations_db = [Some \<lparr>stored_relation = stored_sample_relation, outstanding = 0\<rparr>],
      m_members_db = \<lparr>interests = [\<lparr>way_id = 10, relation_handle = 0, slot_index = 1\<rparr>],
                      stored_ways = [(10, sample_way)], phase = draining\<rparr>,
      m_output = [], m_stats = 0, m_filter = default_filter, m_calls = []\<rparr>"
  by (simp add: closure_entry_manager_def completing_manager_eq rdb_update_def)

lemma sample_situation:
  "phase (m_members_db sample_manager) \<noteq> collecting"
  "filter (\<lambda>i. way_id i = m_id sample_way) (interests (m_members_db sample_manager))
      = [] @ \<lparr>way_id = 10, relation_handle = 0, slot_index = 1\<rparr> # []"
  "notify (on_complete assembler) []
      (sample_manager\<lparr>m_members_db := (m_members_db sample_manager)
          \<lparr>stored_ways := stored_ways (m_members_db sample_manager) @ [(m_id sample_way, sample_way)],
           phase := draining\<rparr>\<rparr>) = (completing_manager, None)"
  "rdb_get (m_relations_db completing_manager)
        (relation_handle \<lparr>way_id = 10, relation_handle = 0, slot_index = 1\<rparr>)
      = Some \<lparr>stored_relation = stored_sample_relation, outstanding = 1\<rparr>"
  "outstanding \<lparr>stored_relation = stored_sample_relation, outstanding = 1\<rparr> = 1"
  "closure_entry_manager = completing_manager\<lparr>m_relations_db :=
      rdb_update (m_relations_db completing_manager)
        (relation_handle \<lparr>way_id = 10, relation_handle = 0, slot_index = 1\<rparr>)
        (\<lparr>stored_relation = stored_sample_relation, outstanding = 1\<rparr>\<lparr>outstanding := 0\<rparr>)\<rparr>"
  "0 = relation_handle \<lparr>way_id = 10, relation_handle = 0, slot_index = 1\<rparr>"
  "stored_sample_relation = stored_relation \<lparr>stored_relation = stored_sample_relation, outstanding = 1\<rparr>"
  "[sample_way] = resolved_ways (m_members_db closure_entry_manager) stored_sample_relation"
  "payloads_stored (m_members_db closure_entry_manager) stored_sample_relation"
  "members_asserted stored_sample_relation"
proof -
  show "phase (m_members_db sample_manager) \<noteq> collecting"
    by (simp add: sample_manager_eq)
  show "filter (\<lambda>i. way_id i = m_id sample_way) (interests (m_members_db sample_manager))
      = [] @ \<lparr>way_id = 10, relation_handle = 0, slot_index = 1\<rparr> # []"
    by (simp add: sample_manager_eq sample_way_def)
  show "notify (on_complete assembler) []
      (sample_manager\<lparr>m_members_db := (m_members_db sample_manager)
          \<lparr>stored_ways := stored_ways (m_members_db sample_manager) @ [(m_id sample_way, sample_way)],
           phase := draining\<rparr>\<rparr>) = (completing_manager, None)"
    by (simp add: completing_manager_def)
  show "rdb_get (m_relations_db completing_manager)
        (relation_handle \<lparr>way_id = 10, relation_handle = 0, slot_index = 1\<rparr>)
      = Some \<lparr>stored_relation = stored_sample_relation, outstanding = 1\<rparr>"
    by (simp add: completing_manager_eq rdb_get_def)
  show "outstanding \<lparr>stored_relation = stored_sample_relation, outstanding = 1\<rparr> = 1"
    by simp
  show "closure_entry_manager = completing_manager\<lparr>m_relations_db :=
      rdb_update (m_relations_db completing_manager)
        (relation_handle \<lparr>way_id = 10, relation_handle = 0, slot_index = 1\<rparr>)
        (\<lparr>stored_relation = stored_sample_relation, outstanding = 1\<rparr>\<lparr>outstanding := 0\<rparr>)\<rparr>"
    by (simp add: closure_entry_manager_def)
  show "0 = relation_handle \<lparr>way_id = 10, relation_handle = 0, slot_index = 1\<rparr>"
    by simp
  show "stored_sample_relation = stored_relation \<lparr>stored_relation = stored_sample_relation, outstanding = 1\<rparr>"
    by simp
  show "[sample_way] = resolved_ways (m_members_db closure_entry_manager) stored_sample_relation"
    by (simp add: resolved_ways_def closure_entry_manager_eq stored_sample_relation_def mdb_get_def)
  show "payloads_stored (m_members_db closure_entry_manager) stored_sample_relation"
    by (simp add: payloads_stored_def closure_entry_manager_eq stored_sample_relation_def mdb_get_def)
  show "members_asserted stored_sample_relation"
    by (simp add: members_asserted_def stored_sample_relation_def)
qed

lemma zero_manager_eq:
  "zero_manager =
     \<lparr>m_relations_db = [Some \<lparr>stored_relation = zero_relation, outstanding = 1\<rparr>],
      m_members_db = \<lparr>interests = [\<lparr>way_id = 0, relation_handle = 0, slot_index = 0\<rparr>],
                      stored_ways = [], phase = prepared\<rparr>,
      m_output = [], m_stats = 0, m_filter = default_filter, m_calls = []\<rparr>"
  by (simp add: zero_manager_def prepare_def relation_def new_manager_def default_filter_def
      MultipolygonManager_init_def keep_relation_def zero_relation_def match_any_of_def
      tag_key_def tag_value_def rdb_add_def mdb_track_def rdb_get_def rdb_update_def
      mdb_prepare_def and_then_def Let_def)

text \<open>
  C7, as stated, fails in two ways. A relation whose only member is a way with id 0 is
  kept in pass 1 with the interest (0, handle, 0). When the way 0 arrives, the closure
  runs: it gathers no way, since it skips the members with id 0, calls the relation
  assembler on no ways, removes no interest and releases the handle, so the interest
  registered against the relation is still there when the closure returns. And with an
  assembler that throws an exception other than \<open>invalid_location\<close>, the sample way
  completes the sample relation, the exception leaves \<open>member_way\<close> after the
  assembler call, and the interest and the relation are still stored: steps (c) and (d)
  are not done.
\<close>

theorem completion_counterexample:
  "interests (m_members_db zero_manager) = [\<lparr>way_id = 0, relation_handle = 0, slot_index = 0\<rparr>]
   \<and> rdb_get (m_relations_db zero_manager) 0 = Some \<lparr>stored_relation = zero_relation, outstanding = 1\<rparr>
   \<and> notify (on_complete sample_assembler) [\<lparr>way_id = 0, relation_handle = 0, slot_index = 0\<rparr>]
        zero_completing_manager
      = and_then (on_complete sample_assembler zero_closure_entry_manager 0)
          (notify (on_complete sample_assembler) [])
   \<and> snd (on_complete sample_assembler zero_closure_entry_manager 0) = None
   \<and> m_calls (fst (on_complete sample_assembler zero_closure_entry_manager 0))
      = [relation_call zero_relation []]
   \<and> rdb_get (m_relations_db (fst (on_complete sample_assembler zero_closure_entry_manager 0))) 0 = None
   \<and> interests (m_members_db (fst (on_complete sample_assembler zero_closure_entry_manager 0)))
      = [\<lparr>way_id = 0, relation_handle = 0, slot_index = 0\<rparr>]
   \<and> m_calls (fst (member_way sample_assembler zero_manager zero_way))
      = [relation_call zero_relation [], way_call zero_way]
   \<and> snd (member_way failing_assembler sample_manager sample_way) = Some (other_exception ''assembler'')
   \<and> m_calls (fst (member_way failing_assembler sample_manager sample_way))
      = [relation_call stored_sample_relation [sample_way]]
   \<and> rdb_get (m_relations_db (fst (member_way failing_assembler sample_manager sample_way))) 0
      = Some \<lparr>stored_relation = stored_sample_relation, outstanding = 0\<rparr>
   \<and> interests (m_members_db (fst (member_way failing_assembler sample_manager sample_way)))
      = [\<lparr>way_id = 10, relation_handle = 0, slot_index = 1\<rparr>]"
proof -
  have n: "notify (on_complete sample_assembler) [\<lparr>way_id = 0, relation_handle = 0, slot_index = 0\<rparr>]
        zero_completing_manager
      = and_then (on_complete sample_assembler zero_closure_entry_manager 0)
          (notify (on_complete sample_assembler) [])"
  proof -
    have l: "rdb_get (m_relations_db zero_completing_manager)
        (relation_handle \<lparr>way_id = 0, relation_handle = 0, slot_index = 0\<rparr>)
        = Some \<lparr>stored_relation = zero_relation, outstanding = 1\<rparr>"
      by (simp add: zero_completing_manager_def zero_manager_eq rdb_get_def)
    show ?thesis
      using notify_completing [OF l, of "on_complete sample_assembler" "[]"]
      by (simp add: zero_closure_entry_manager_def)
  qed
  have rest: "interests (m_members_db zero_manager) = [\<lparr>way_id = 0, relation_handle = 0, slot_index = 0\<rparr>]
   \<and> rdb_get (m_relations_db zero_manager) 0 = Some \<lparr>stored_relation = zero_relation, outstanding = 1\<rparr>
   \<and> snd (on_complete sample_assembler zero_closure_entry_manager 0) = None
   \<and> m_calls (fst (on_complete sample_assembler zero_closure_entry_manager 0))
      = [relation_call zero_relation []]
   \<and> rdb_get (m_relations_db (fst (on_complete sample_assembler zero_closure_entry_manager 0))) 0 = None
   \<and> interests (m_members_db (fst (on_complete sample_assembler zero_closure_entry_manager 0)))
      = [\<lparr>way_id = 0, relation_handle = 0, slot_index = 0\<rparr>]
   \<and> m_calls (fst (member_way sample_assembler zero_manager zero_way))
      = [relation_call zero_relation [], way_call zero_way]
   \<and> snd (member_way failing_assembler sample_manager sample_way) = Some (other_exception ''assembler'')
   \<and> m_calls (fst (member_way failing_assembler sample_manager sample_way))
      = [relation_call stored_sample_relation [sample_way]]
   \<and> rdb_get (m_relations_db (fst (member_way failing_assembler sample_manager sample_way))) 0
      = Some \<lparr>stored_relation = stored_sample_relation, outstanding = 0\<rparr>
   \<and> interests (m_members_db (fst (member_way failing_assembler sample_manager sample_way)))
      = [\<lparr>way_id = 10, relation_handle = 0, slot_index = 1\<rparr>]"
    by code_simp
  show ?thesis using n rest by blast
qed

text \<open>
  C7, amended: when a way arrives in pass 2 and an interest in it is the last one
  outstanding of a relation, \<open>member_way\<close> runs the closure on that relation. The
  closure (a) gathers the payloads of exactly the members with a non-zero id, in slot
  order, from the members database, and (b) calls the relation assembler on the relation
  and these ways. If the assembler throws an exception other than
  \<open>invalid_location\<close>, the closure ends there and the exception leaves
  \<open>member_way\<close>, with nothing changed but the call. Otherwise the areas and the
  statistics of the assembler (none after \<open>invalid_location\<close>) are added, (c) the
  interests that match a non-zero member id and the id of the relation are removed, so
  that no interest in a member with a non-zero id stays against the handle, and (d) the
  handle is released; \<open>member_way\<close> goes on from this manager. Where a payload is
  missing or the assertion of \<open>remove_members\<close> fails, the outcome is a contract
  violation.
\<close>

theorem member_way_completes_relation:
  assumes ph: "phase (m_members_db st) \<noteq> collecting"
    and m: "filter (\<lambda>i. way_id i = m_id way) (interests (m_members_db st)) = pre @ elem # rest"
    and pre: "notify (on_complete assembler) pre
        (st\<lparr>m_members_db := (m_members_db st)
           \<lparr>stored_ways := stored_ways (m_members_db st) @ [(m_id way, way)], phase := draining\<rparr>\<rparr>)
        = (st1, None)"
    and live: "rdb_get (m_relations_db st1) (relation_handle elem) = Some e"
    and last: "outstanding e = 1"
    and entry: "st2 = st1\<lparr>m_relations_db := rdb_update (m_relations_db st1) (relation_handle elem)
                        (e\<lparr>outstanding := 0\<rparr>)\<rparr>"
    and handle: "h = relation_handle elem"
    and rel: "r = stored_relation e"
    and gathered: "ways = resolved_ways (m_members_db st2) r"
  shows "(payloads_stored (m_members_db st2) r
          \<longrightarrow> gather_ways (m_members_db st2) (members r) = Some ways)
     \<and> (payloads_stored (m_members_db st2) r \<and> members_asserted r
          \<and> assemble_relation assembler r ways = Inr (areas, stats)
          \<longrightarrow> on_complete assembler st2 h =
                (completed st2 h r ways (m_output st2 @ areas) (m_stats st2 + stats), None)
            \<and> member_way assembler st way =
                rest_of_member_way assembler
                  (completed st2 h r ways (m_output st2 @ areas) (m_stats st2 + stats)) rest way)
     \<and> (payloads_stored (m_members_db st2) r \<and> members_asserted r
          \<and> assemble_relation assembler r ways = Inl invalid_location
          \<longrightarrow> on_complete assembler st2 h =
                (completed st2 h r ways (m_output st2) (m_stats st2), None)
            \<and> member_way assembler st way =
                rest_of_member_way assembler
                  (completed st2 h r ways (m_output st2) (m_stats st2)) rest way)
     \<and> (payloads_stored (m_members_db st2) r
          \<and> assemble_relation assembler r ways = Inl x \<and> x \<noteq> invalid_location
          \<longrightarrow> on_complete assembler st2 h =
                (st2\<lparr>m_calls := m_calls st2 @ [relation_call r ways]\<rparr>, Some x)
            \<and> member_way assembler st way =
                (st2\<lparr>m_calls := m_calls st2 @ [relation_call r ways]\<rparr>, Some x))
     \<and> (\<not> payloads_stored (m_members_db st2) r
          \<longrightarrow> member_way assembler st way = (st2, Some contract_violation))
     \<and> (payloads_stored (m_members_db st2) r \<and> \<not> members_asserted r
          \<and> (assemble_relation assembler r ways = Inl invalid_location
               \<or> (\<exists>res. assemble_relation assembler r ways = Inr res))
          \<longrightarrow> snd (member_way assembler st way) = Some contract_violation)
     \<and> rdb_get (m_relations_db (completed st2 h r ways out stats2)) h = None
     \<and> list_all (\<lambda>i. \<not> (relation_handle i = h \<and> way_id i \<noteq> 0
                         \<and> list_ex (\<lambda>member. ref member = way_id i) (members r)))
          (interests (m_members_db (completed st2 h r ways out stats2)))"
proof -
  have live2: "rdb_get (m_relations_db st2) h = Some (e\<lparr>outstanding := 0\<rparr>)"
    using live by (simp add: entry handle rdb_get_update_same)
  have r2: "stored_relation (e\<lparr>outstanding := 0\<rparr>) = r"
    by (simp add: rel)
  have mw: "member_way assembler st way =
     and_then (on_complete assembler st2 h) (\<lambda>st3. rest_of_member_way assembler st3 rest way)"
    unfolding entry handle by (rule member_way_reaches_closure [OF ph m pre live last])
  have a: "gather_ways (m_members_db st2) (members r) = Some ways"
    if "payloads_stored (m_members_db st2) r"
    using that gather_ways_stored [of "m_members_db st2" "members r"]
    by (simp add: payloads_stored_def gathered resolved_ways_def)
  have b: "on_complete assembler st2 h =
                (completed st2 h r ways (m_output st2 @ areas) (m_stats st2 + stats), None)"
    if "payloads_stored (m_members_db st2) r" "members_asserted r"
      "assemble_relation assembler r ways = Inr (areas, stats)"
    using on_complete_returns [OF live2, of assembler areas stats] that
    by (simp add: r2 gathered)
  have c: "on_complete assembler st2 h =
                (completed st2 h r ways (m_output st2) (m_stats st2), None)"
    if "payloads_stored (m_members_db st2) r" "members_asserted r"
      "assemble_relation assembler r ways = Inl invalid_location"
    using on_complete_swallows [OF live2, of assembler] that
    by (simp add: r2 gathered)
  have d: "on_complete assembler st2 h =
                (st2\<lparr>m_calls := m_calls st2 @ [relation_call r ways]\<rparr>, Some x)"
    if "payloads_stored (m_members_db st2) r"
      "assemble_relation assembler r ways = Inl x" "x \<noteq> invalid_location"
    using on_complete_throws [OF live2, of assembler x] that
    by (simp add: r2 gathered)
  have e': "on_complete assembler st2 h = (st2, Some contract_violation)"
    if "\<not> payloads_stored (m_members_db st2) r"
    using on_complete_missing [OF live2, of assembler] that
    by (simp add: r2)
  have f: "snd (on_complete assembler st2 h) = Some contract_violation"
    if "payloads_stored (m_members_db st2) r" "\<not> members_asserted r"
      "assemble_relation assembler r ways = Inl invalid_location
               \<or> (\<exists>res. assemble_relation assembler r ways = Inr res)"
    using on_complete_assert_fails [OF live2, of assembler] that
    by (simp add: r2 gathered)
  have g: "rdb_get (m_relations_db (completed st2 h r ways out stats2)) h = None"
    by (simp add: completed_def rdb_get_remove_same)
  have hh: "list_all (\<lambda>i. \<not> (relation_handle i = h \<and> way_id i \<noteq> 0
                         \<and> list_ex (\<lambda>member. ref member = way_id i) (members r)))
          (interests (m_members_db (completed st2 h r ways out stats2)))"
    using live2 r2
    by (auto simp: completed_def list_all_iff list_ex_iff interest_matches_def)
  show ?thesis
    using a b c d e' f g hh
    by (auto simp: mw snd_and_then_Some)
qed

theorem member_way_completes_relation_witness:
  "on_complete sample_assembler closure_entry_manager 0 =
     (completed closure_entry_manager 0 stored_sample_relation [sample_way]
        [\<lparr>m_id = 15, tags = [(''type'', ''multipolygon''), (''landuse'', ''forest'')],
          rings = [(item_type_outer_ring, nodes sample_way)]\<rparr>] 1, None)
   \<and> member_way sample_assembler sample_manager sample_way =
       rest_of_member_way sample_assembler
         (completed closure_entry_manager 0 stored_sample_relation [sample_way]
            [\<lparr>m_id = 15, tags = [(''type'', ''multipolygon''), (''landuse'', ''forest'')],
              rings = [(item_type_outer_ring, nodes sample_way)]\<rparr>] 1) [] sample_way
   \<and> member_way throwing_assembler sample_manager sample_way =
       rest_of_member_way throwing_assembler
         (completed closure_entry_manager 0 stored_sample_relation [sample_way] [] 0) [] sample_way
   \<and> member_way failing_assembler sample_manager sample_way =
       (closure_entry_manager\<lparr>m_calls := [relation_call stored_sample_relation [sample_way]]\<rparr>,
        Some (other_exception ''assembler''))
   \<and> interests (m_members_db (completed closure_entry_manager 0 stored_sample_relation [sample_way] [] 0)) = []
   \<and> rdb_get (m_relations_db (completed closure_entry_manager 0 stored_sample_relation [sample_way] [] 0)) 0
       = None"
proof -
  have res: "assemble_relation sample_assembler stored_sample_relation [sample_way] =
      Inr ([\<lparr>m_id = 15, tags = [(''type'', ''multipolygon''), (''landuse'', ''forest'')],
          rings = [(item_type_outer_ring, nodes sample_way)]\<rparr>], 1)"
    by (simp add: sample_assembler_def stored_sample_relation_def sample_relation_def
        object_id_to_area_id_def std_abs_def word_sless_alt Let_def)
  have thr: "assemble_relation throwing_assembler stored_sample_relation [sample_way] = Inl invalid_location"
    by (simp add: throwing_assembler_def)
  have fl: "assemble_relation failing_assembler stored_sample_relation [sample_way]
      = Inl (other_exception ''assembler'')" "other_exception ''assembler'' \<noteq> invalid_location"
    by (simp_all add: failing_assembler_def)
  have e: "m_output closure_entry_manager = []" "m_stats closure_entry_manager = 0"
    "m_calls closure_entry_manager = []"
    by (simp_all add: closure_entry_manager_eq)
  note s = sample_situation
  note t1 = member_way_completes_relation [OF s(1) s(2) s(3) s(4) s(5) s(6) s(7) s(8) s(9),
      where assembler = sample_assembler and stats = 1 and out = "[]" and ?stats2.0 = 0
      and areas = "[\<lparr>m_id = 15, tags = [(''type'', ''multipolygon''), (''landuse'', ''forest'')],
          rings = [(item_type_outer_ring, nodes sample_way)]\<rparr>]"]
  note t2 = member_way_completes_relation [OF s(1) s(2) s(3) s(4) s(5) s(6) s(7) s(8) s(9),
      where assembler = throwing_assembler]
  note t3 = member_way_completes_relation [OF s(1) s(2) s(3) s(4) s(5) s(6) s(7) s(8) s(9),
      where assembler = failing_assembler and x = "other_exception ''assembler''"]
  have c1: "on_complete sample_assembler closure_entry_manager 0 =
     (completed closure_entry_manager 0 stored_sample_relation [sample_way]
        (m_output closure_entry_manager @ [\<lparr>m_id = 15, tags = [(''type'', ''multipolygon''), (''landuse'', ''forest'')],
          rings = [(item_type_outer_ring, nodes sample_way)]\<rparr>]) (m_stats closure_entry_manager + 1), None)
     \<and> member_way sample_assembler sample_manager sample_way =
       rest_of_member_way sample_assembler
         (completed closure_entry_manager 0 stored_sample_relation [sample_way]
            (m_output closure_entry_manager @ [\<lparr>m_id = 15, tags = [(''type'', ''multipolygon''), (''landuse'', ''forest'')],
              rings = [(item_type_outer_ring, nodes sample_way)]\<rparr>]) (m_stats closure_entry_manager + 1)) [] sample_way"
    using t1 s(10) s(11) res by blast
  have c2: "member_way throwing_assembler sample_manager sample_way =
       rest_of_member_way throwing_assembler
         (completed closure_entry_manager 0 stored_sample_relation [sample_way]
            (m_output closure_entry_manager) (m_stats closure_entry_manager)) [] sample_way"
    using t2 s(10) s(11) thr by blast
  have c3: "member_way failing_assembler sample_manager sample_way =
       (closure_entry_manager\<lparr>m_calls := m_calls closure_entry_manager @
           [relation_call stored_sample_relation [sample_way]]\<rparr>,
        Some (other_exception ''assembler''))"
    using t3 s(10) fl by blast
  have c4: "rdb_get (m_relations_db (completed closure_entry_manager 0 stored_sample_relation [sample_way] [] 0)) 0
       = None"
    using t1 by blast
  have c5: "interests (m_members_db (completed closure_entry_manager 0 stored_sample_relation [sample_way] [] 0)) = []"
    by (simp add: completed_def closure_entry_manager_eq stored_sample_relation_def
        interest_matches_def rdb_get_def)
  show ?thesis
    using c1 c2 c3 c4 c5 by (simp only: e append_Nil add_0 simp_thms)
qed

end
